theory Spec2Isabelle
  imports Main "HOL-Library.Sublist" "HOL-Library.FSet"
begin

section \<open>Python values shared by the services\<close>

text \<open>
  Exceptions are values. \<open>Exception m\<close> stands for an instance of any subclass of Python's
  \<open>Exception\<close> other than \<open>json.JSONDecodeError\<close>, with \<open>m\<close> its \<open>str()\<close>; the decode error
  is kept apart because \<open>DotsOCRService.extract_text_from_image\<close> has a handler for it alone.
  A function that may raise returns \<open>exc + 'a\<close>, \<open>Inl\<close> being the raise.
\<close>

datatype exc = Exception string | JSONDecodeError string

fun str_exc :: "exc \<Rightarrow> string" where
  "str_exc (Exception m) = m"
| "str_exc (JSONDecodeError m) = m"

text \<open>
  A decoded JSON document as a Python value; \<open>JNull\<close> is Python's \<open>None\<close>, which is also
  what the \<open>parsed\<close> field of a result holds when there is no structured output.
\<close>

datatype json =
    JNull
  | JBool bool
  | JNumber string
  | JString string
  | JArray "json list"
  | JObject "(string \<times> json) list"

text \<open>\<open>str.strip()\<close> on code points below 256: the whitespace of Python's \<open>str.isspace\<close>.\<close>

definition py_isspace :: "char \<Rightarrow> bool" where
  "py_isspace c =
     (let n = (of_char c :: nat)
      in (9 \<le> n \<and> n \<le> 13) \<or> (28 \<le> n \<and> n \<le> 32) \<or> n = 133 \<or> n = 160)"

definition py_strip :: "string \<Rightarrow> string" where
  "py_strip s = rev (dropWhile py_isspace (rev (dropWhile py_isspace s)))"

text \<open>\<open>str()\<close> of a non-negative and of an arbitrary Python integer.\<close>

definition digit_char :: "nat \<Rightarrow> char" where
  "digit_char d =
     (if d = 0 then CHR ''0'' else if d = 1 then CHR ''1'' else if d = 2 then CHR ''2''
      else if d = 3 then CHR ''3'' else if d = 4 then CHR ''4'' else if d = 5 then CHR ''5''
      else if d = 6 then CHR ''6'' else if d = 7 then CHR ''7'' else if d = 8 then CHR ''8''
      else CHR ''9'')"

function str_nat :: "nat \<Rightarrow> string" where
  "str_nat n = (if n < 10 then [digit_char n] else str_nat (n div 10) @ [digit_char (n mod 10)])"
  by pat_completeness auto
termination
  by (relation "measure id") auto

declare str_nat.simps [simp del]

definition str_int :: "int \<Rightarrow> string" where
  "str_int i = (if i < 0 then CHR ''-'' # str_nat (nat (- i)) else str_nat (nat i))"

section \<open>The OCR services (services/ocr\_service.py)\<close>

subsection \<open>Collaborators\<close>

text \<open>
  What lies outside the repository is a parameter of the model, one field each:
  \<^item> \<open>DOTS_OCR_AVAILABLE\<close> and \<open>TESSERACT_AVAILABLE\<close>, set by the imports at module load;
  \<^item> \<open>platform.system() == "Darwin"\<close>;
  \<^item> the two \<open>from_pretrained\<close> calls of \<open>DotsOCRService.initialize\<close> (\<open>None\<close>: loaded);
  \<^item> the inference of \<open>DotsOCRService.extract_text_from_image\<close> (lines 141 to 195: prompt,
    processor, \<open>generate\<close>, \<open>batch_decode\<close>), a function of the image path and the task
    type giving the decoded text or the exception raised on the way;
  \<^item> \<open>json.loads\<close>;
  \<^item> \<open>Image.open\<close> followed by \<open>pytesseract.image_to_string\<close>.
\<close>

record ocr_env =
  DOTS_OCR_AVAILABLE :: bool
  TESSERACT_AVAILABLE :: bool
  platform_is_darwin :: bool
  load_model :: "exc option"
  load_processor :: "exc option"
  inference :: "string \<Rightarrow> string \<Rightarrow> exc + string"
  json_loads :: "string \<Rightarrow> exc + json"
  image_to_string :: "string \<Rightarrow> exc + string"

text \<open>
  The mutable fields of the services: whether \<open>DotsOCRService.model\<close> and \<open>.processor\<close> are
  set, and \<open>OCRService.initialized\<close>.
\<close>

record ocr_state =
  model :: bool
  processor :: bool
  initialized :: bool

subsection \<open>DotsOCRService\<close>

definition dots_is_available :: "ocr_env \<Rightarrow> bool" where
  "dots_is_available env =
     (if \<not> DOTS_OCR_AVAILABLE env then False
      else if platform_is_darwin env then False
      else True)"

text \<open>
  \<open>DotsOCRService.initialize\<close>: raises when the engine is unavailable or a load fails. The
  model is assigned before the processor is loaded, so a failing processor load leaves the
  model set.
\<close>

definition dots_initialize :: "ocr_env \<Rightarrow> ocr_state \<Rightarrow> ocr_state \<times> exc option" where
  "dots_initialize env st =
     (if \<not> dots_is_available env
      then (st, Some (Exception ''Dots.OCR dependencies are not available''))
      else case load_model env of
        Some e \<Rightarrow> (st, Some (Exception (''Dots.OCR model requires flash_attn: '' @ str_exc e)))
      | None \<Rightarrow>
          (case load_processor env of
             Some e \<Rightarrow> (st\<lparr>model := True\<rparr>, Some e)
           | None \<Rightarrow> (st\<lparr>model := True, processor := True\<rparr>, None)))"

record dots_result =
  d_text :: string
  d_parsed :: json
  d_task_type :: string
  d_success :: bool

text \<open>
  \<open>DotsOCRService.extract_text_from_image\<close>. The inner \<open>try\<close> catches only
  \<open>json.JSONDecodeError\<close>; any other exception of \<open>json.loads\<close>, like one of the inference,
  reaches the outer handler, which logs and re-raises.
\<close>

definition dots_extract_text_from_image ::
  "ocr_env \<Rightarrow> ocr_state \<Rightarrow> string \<Rightarrow> string \<Rightarrow> exc + dots_result" where
  "dots_extract_text_from_image env st image_path task_type =
     (if \<not> model st \<or> \<not> processor st then Inl (Exception ''Dots.OCR model not initialized'')
      else case inference env image_path task_type of
        Inl e \<Rightarrow> Inl e
      | Inr output_text \<Rightarrow>
          (if task_type = ''full'' \<or> task_type = ''layout_only'' then
             (case json_loads env output_text of
                Inr parsed_output \<Rightarrow>
                  Inr \<lparr>d_text = output_text, d_parsed = parsed_output,
                       d_task_type = task_type, d_success = True\<rparr>
              | Inl (JSONDecodeError m) \<Rightarrow>
                  Inr \<lparr>d_text = output_text, d_parsed = JNull,
                       d_task_type = task_type, d_success = True\<rparr>
              | Inl (Exception m) \<Rightarrow> Inl (Exception m))
           else
             Inr \<lparr>d_text = output_text, d_parsed = JNull,
                  d_task_type = task_type, d_success = True\<rparr>))"

subsection \<open>TesseractOCRService\<close>

definition tesseract_is_available :: "ocr_env \<Rightarrow> bool" where
  "tesseract_is_available env = TESSERACT_AVAILABLE env"

definition tesseract_extract_text_from_image :: "ocr_env \<Rightarrow> string \<Rightarrow> exc + string" where
  "tesseract_extract_text_from_image env image_path =
     (if \<not> tesseract_is_available env then Inl (Exception ''Tesseract OCR is not available'')
      else case image_to_string env image_path of
        Inl e \<Rightarrow> Inl e
      | Inr text \<Rightarrow> Inr (py_strip text))"

subsection \<open>OCRService\<close>

text \<open>
  \<open>OCRService.initialize\<close> swallows a failure of the primary engine's initialisation and sets
  \<open>initialized\<close> either way.
\<close>

definition ocr_initialize :: "ocr_env \<Rightarrow> ocr_state \<Rightarrow> ocr_state" where
  "ocr_initialize env st =
     (if \<not> initialized st then (fst (dots_initialize env st))\<lparr>initialized := True\<rparr> else st)"

record ocr_result =
  r_text :: string
  r_method :: string
  r_success :: bool
  r_error :: "string option"
  r_parsed :: json
  r_task_type :: string

text \<open>The f-string rendering of \<open>result['error']\<close>, which may still be \<open>None\<close>.\<close>

definition str_opt :: "string option \<Rightarrow> string" where
  "str_opt e = (case e of None \<Rightarrow> ''None'' | Some s \<Rightarrow> s)"

text \<open>
  \<open>OCRService.extract_text_from_image\<close>, returning the services' state with the result. The
  function is split where the source falls through from the primary engine's block to the
  fallback's block: \<open>ocr_fallback\<close> is the second block, entered with the result so far.
\<close>

definition ocr_fallback :: "ocr_env \<Rightarrow> string \<Rightarrow> bool \<Rightarrow> ocr_result \<Rightarrow> ocr_result" where
  "ocr_fallback env image_path use_fallback result =
     (if use_fallback \<and> tesseract_is_available env then
        (case tesseract_extract_text_from_image env image_path of
           Inr text \<Rightarrow>
             result\<lparr>r_text := text, r_method := ''tesseract'', r_success := True, r_error := None\<rparr>
         | Inl e \<Rightarrow>
             result\<lparr>r_error := Some (''Both OCR methods failed. Dots: '' @ str_opt (r_error result)
                                    @ '', Tesseract: '' @ str_exc e)\<rparr>)
      else result)"

definition ocr_extract_text_from_image ::
  "ocr_env \<Rightarrow> ocr_state \<Rightarrow> string \<Rightarrow> bool \<Rightarrow> string \<Rightarrow> ocr_state \<times> ocr_result" where
  "ocr_extract_text_from_image env st0 image_path use_fallback task_type =
     (let st = ocr_initialize env st0;
          result = \<lparr>r_text = '''', r_method = '''', r_success = False, r_error = None,
                    r_parsed = JNull, r_task_type = task_type\<rparr>
      in if dots_is_available env then
           (case dots_extract_text_from_image env st image_path task_type of
              Inr dots_result \<Rightarrow>
                (st, result\<lparr>r_text := d_text dots_result, r_method := ''dots.ocr'',
                           r_success := True, r_parsed := d_parsed dots_result,
                           r_task_type := d_task_type dots_result\<rparr>)
            | Inl e \<Rightarrow>
                (st, ocr_fallback env image_path use_fallback (result\<lparr>r_error := Some (str_exc e)\<rparr>)))
         else (st, ocr_fallback env image_path use_fallback result))"

subsection \<open>PDF pages through the primary engine\<close>

text \<open>
  \<open>DotsOCRService.extract_text_from_pdf\<close> rasterises each page into a file under \<open>/tmp\<close>, runs
  the image path on it and removes the file. Its collaborators:
  \<^item> whether \<open>import fitz\<close> succeeds, and \<open>fitz.open\<close>, giving the number of pages;
  \<^item> \<open>load_page\<close> with \<open>get_pixmap\<close> at the given DPI, and \<open>pix.save\<close> (\<open>None\<close>: no exception);
  \<^item> a reason for \<open>os.remove\<close> to fail on a file that exists;
  \<^item> Python's \<open>hash\<close> of the path string;
  \<^item> the two page headers of the combined text, whose Hebrew words lie outside 8-bit
    characters: the header of a successful page and of a failed page, by page number.
  The temporary files that exist are a set of paths, passed in and returned.
\<close>

record pdf_env =
  fitz_import :: "exc option"
  fitz_open :: "string \<Rightarrow> exc + nat"
  get_pixmap :: "string \<Rightarrow> nat \<Rightarrow> nat \<Rightarrow> exc option"
  pix_save :: "string \<Rightarrow> exc option"
  remove_fails :: "string \<Rightarrow> exc option"
  py_hash :: "string \<Rightarrow> int"
  page_header :: "nat \<Rightarrow> string"
  page_error_header :: "nat \<Rightarrow> string"

record page_result =
  p_page_num :: nat
  p_page_total :: nat
  p_success :: bool
  p_error :: "string option"
  p_text :: string
  p_parsed :: json
  p_task_type :: "string option"

definition os_remove :: "pdf_env \<Rightarrow> string set \<Rightarrow> string \<Rightarrow> string set \<times> exc option" where
  "os_remove penv fs path =
     (if path \<notin> fs then (fs, Some (Exception (''No such file or directory: '' @ path)))
      else case remove_fails penv path of
        Some e \<Rightarrow> (fs, Some e)
      | None \<Rightarrow> (fs - {path}, None))"

definition temp_image_path :: "pdf_env \<Rightarrow> string \<Rightarrow> nat \<Rightarrow> string" where
  "temp_image_path penv pdf_path page_num =
     ''/tmp/dots_ocr_pdf_'' @ str_nat page_num @ ''_'' @ str_int (py_hash penv pdf_path) @ ''.png''"

definition error_page :: "nat \<Rightarrow> nat \<Rightarrow> exc \<Rightarrow> page_result" where
  "error_page page_num total_pages e =
     \<lparr>p_page_num = page_num + 1, p_page_total = total_pages, p_success = False,
      p_error = Some (str_exc e), p_text = [], p_parsed = JNull, p_task_type = None\<rparr>"

text \<open>
  The body of the page loop (lines 255 to 295). The removal of the temporary file is the
  statement after the OCR call inside the \<open>try\<close>; an exception of the OCR call goes to the
  handler of the page, which appends the error entry and does nothing else. A failing removal
  is logged as a warning and the page still counts.
\<close>

definition process_page ::
  "ocr_env \<Rightarrow> pdf_env \<Rightarrow> ocr_state \<Rightarrow> string \<Rightarrow> string \<Rightarrow> nat \<Rightarrow> nat \<Rightarrow> string set \<Rightarrow> nat
     \<Rightarrow> string set \<times> page_result" where
  "process_page env penv st pdf_path task_type dpi total_pages fs page_num =
     (case get_pixmap penv pdf_path page_num dpi of
        Some e \<Rightarrow> (fs, error_page page_num total_pages e)
      | None \<Rightarrow>
          (let temp = temp_image_path penv pdf_path page_num
           in case pix_save penv temp of
                Some e \<Rightarrow> (fs, error_page page_num total_pages e)
              | None \<Rightarrow>
                  (let fs1 = insert temp fs
                   in case dots_extract_text_from_image env st temp task_type of
                        Inl e \<Rightarrow> (fs1, error_page page_num total_pages e)
                      | Inr page_result \<Rightarrow>
                          (fst (os_remove penv fs1 temp),
                           \<lparr>p_page_num = page_num + 1, p_page_total = total_pages,
                            p_success = d_success page_result, p_error = None,
                            p_text = d_text page_result, p_parsed = d_parsed page_result,
                            p_task_type = Some (d_task_type page_result)\<rparr>))))"

fun process_pages ::
  "ocr_env \<Rightarrow> pdf_env \<Rightarrow> ocr_state \<Rightarrow> string \<Rightarrow> string \<Rightarrow> nat \<Rightarrow> nat \<Rightarrow> nat list
     \<Rightarrow> string set \<Rightarrow> page_result list \<Rightarrow> string set \<times> page_result list" where
  "process_pages env penv st pdf_path task_type dpi total_pages [] fs all_results =
     (fs, all_results)"
| "process_pages env penv st pdf_path task_type dpi total_pages (page_num # rest) fs all_results =
     (case process_page env penv st pdf_path task_type dpi total_pages fs page_num of
        (fs', r) \<Rightarrow>
          process_pages env penv st pdf_path task_type dpi total_pages rest fs' (all_results @ [r]))"

text \<open>The loop that joins the page texts and counts the successful pages (lines 300 to 310).\<close>

fun combine_pages :: "pdf_env \<Rightarrow> page_result list \<Rightarrow> string \<times> nat \<Rightarrow> string \<times> nat" where
  "combine_pages penv [] acc = acc"
| "combine_pages penv (result # rest) (combined_text, successful_pages) =
     (if p_success result then
        combine_pages penv rest
          (if py_strip (p_text result) \<noteq> []
           then combined_text @ page_header penv (p_page_num result) @ p_text result
           else combined_text,
           successful_pages + 1)
      else
        combine_pages penv rest
          (combined_text @ page_error_header penv (p_page_num result), successful_pages))"

record pdf_result =
  f_text :: string
  f_pages :: "page_result list"
  f_task_type :: string
  f_success :: bool
  f_total_pages :: nat
  f_successful_pages :: nat
  f_dpi_used :: nat

definition dots_extract_text_from_pdf ::
  "ocr_env \<Rightarrow> pdf_env \<Rightarrow> ocr_state \<Rightarrow> string set \<Rightarrow> string \<Rightarrow> string \<Rightarrow> nat
     \<Rightarrow> string set \<times> (exc + pdf_result)" where
  "dots_extract_text_from_pdf env penv st fs pdf_path task_type dpi =
     (if \<not> model st \<or> \<not> processor st then (fs, Inl (Exception ''Dots.OCR model not initialized''))
      else case fitz_import penv of
        Some e \<Rightarrow>
          (fs, Inl (Exception
             ''PyMuPDF (fitz) is required for PDF processing. Install with: pip install PyMuPDF''))
      | None \<Rightarrow>
          (case fitz_open penv pdf_path of
             Inl e \<Rightarrow> (fs, Inl e)
           | Inr total_pages \<Rightarrow>
               (case process_pages env penv st pdf_path task_type dpi total_pages
                       [0..<total_pages] fs [] of
                  (fs', all_results) \<Rightarrow>
                    (case combine_pages penv all_results ([], 0) of
                       (combined_text, successful_pages) \<Rightarrow>
                         (fs', Inr \<lparr>f_text = py_strip combined_text, f_pages = all_results,
                                    f_task_type = task_type, f_success = (successful_pages > 0),
                                    f_total_pages = total_pages,
                                    f_successful_pages = successful_pages,
                                    f_dpi_used = dpi\<rparr>)))))"

section \<open>The document processor (services/document\_processor.py)\<close>

subsection \<open>Paths\<close>

text \<open>
  A path is its string, already in the form \<open>str(Path(p))\<close> gives. \<open>Path.name\<close> is the last
  component; \<open>Path.suffix\<close> follows pathlib: with \<open>i\<close> the index of the last dot of the name,
  the suffix is \<open>name[i:]\<close> when \<open>0 < i < len(name) - 1\<close> and empty otherwise.
  \<open>str.lower()\<close> is given on code points below 256.
\<close>

definition path_name :: "string \<Rightarrow> string" where
  "path_name p = rev (takeWhile (\<lambda>c. c \<noteq> CHR ''/'') (rev p))"

definition path_suffix :: "string \<Rightarrow> string" where
  "path_suffix p =
     (let name = path_name p
      in if CHR ''.'' \<notin> set name then []
         else (let i = length name - length (takeWhile (\<lambda>c. c \<noteq> CHR ''.'') (rev name)) - 1
               in if 0 < i \<and> i < length name - 1 then drop i name else []))"

definition lower_char :: "char \<Rightarrow> char" where
  "lower_char c =
     (let n = (of_char c :: nat)
      in if (65 \<le> n \<and> n \<le> 90) \<or> (192 \<le> n \<and> n \<le> 222 \<and> n \<noteq> 215) then char_of (n + 32) else c)"

definition py_lower :: "string \<Rightarrow> string" where
  "py_lower s = map lower_char s"

subsection \<open>Values of metadata dictionaries\<close>

text \<open>
  A metadata dictionary maps keys to Python values. \<open>PFloat m e\<close> is the binary floating
  point number \<open>m * 2 ^ e\<close>; the only float the processor computes is the file size in MB,
  \<open>st_size / (1024 * 1024)\<close>, which is \<open>PFloat st_size (-20)\<close> exactly for sizes below
  \<open>2 ^ 53\<close> bytes, the range the model is about.
\<close>

datatype pyval =
    PNone
  | PBool bool
  | PInt int
  | PFloat int int
  | PStr string
  | PJson json

type_synonym metadata = "string \<rightharpoonup> pyval"

fun truthy :: "pyval option \<Rightarrow> bool" where
  "truthy None = False"
| "truthy (Some PNone) = False"
| "truthy (Some (PBool b)) = b"
| "truthy (Some (PInt i)) = (i \<noteq> 0)"
| "truthy (Some (PFloat m e)) = (m \<noteq> 0)"
| "truthy (Some (PStr s)) = (s \<noteq> [])"
| "truthy (Some (PJson j)) = (j \<notin> {JNull, JBool False, JString [], JArray [], JObject []})"

definition get_or :: "metadata \<Rightarrow> string \<Rightarrow> pyval \<Rightarrow> pyval" where
  "get_or m k d = (case m k of None \<Rightarrow> d | Some v \<Rightarrow> v)"

subsection \<open>Extraction results and collaborators\<close>

text \<open>
  A content item as \<open>process_document\<close> reads it: \<open>item.get("type", "text")\<close> and
  \<open>item.get("content", "")\<close>.
\<close>

record content_item =
  c_type :: "string option"
  c_content :: "string option"

record extraction_result =
  e_success :: bool
  e_content :: "content_item list"
  e_metadata :: metadata
  e_error :: "string option"

record chunk =
  page_content :: string
  chunk_metadata :: metadata

text \<open>
  The collaborators of the processor:
  \<^item> \<open>Path.exists\<close> and \<open>Path.stat().st_size\<close>, the latter able to raise;
  \<open>settings.max_file_size_mb\<close>;
  \<^item> opening and reading a text file as UTF-8;
  \<^item> \<open>extract_text\<close> of the processor classes registered for the file types \<open>pdf\<close>,
    \<open>docx\<close>, \<open>doc\<close>, \<open>image\<close> and \<open>audio\<close>, by file type and path (for a batch the
    image processor is modelled further down, on the state of the OCR services);
  \<^item> the table and formula markers, functions of the content because their Hebrew words lie
    outside 8-bit characters;
  \<^item> MD5 as a hexadecimal digest, and the recursive character splitter of the text splitter.
\<close>

record doc_env =
  path_exists :: "string \<Rightarrow> bool"
  stat_size :: "string \<Rightarrow> exc + nat"
  max_file_size_mb :: int
  open_read :: "string \<Rightarrow> exc + string"
  extract_text :: "string \<Rightarrow> string \<Rightarrow> exc + extraction_result"
  table_marked :: "string \<Rightarrow> string"
  formula_marked :: "string \<Rightarrow> string"
  md5_hex :: "string \<Rightarrow> string"
  split_text_rec :: "string \<Rightarrow> exc + string list"

subsection \<open>DocumentProcessor\<close>

definition type_mapping :: "(string \<times> string) list" where
  "type_mapping =
     [(''.pdf'', ''pdf''), (''.docx'', ''docx''), (''.doc'', ''doc''), (''.txt'', ''txt''),
      (''.png'', ''image''), (''.jpg'', ''image''), (''.jpeg'', ''image''), (''.tiff'', ''image''),
      (''.bmp'', ''image''), (''.mp3'', ''audio''), (''.wav'', ''audio''), (''.m4a'', ''audio''),
      (''.flac'', ''audio'')]"

definition get_file_type :: "string \<Rightarrow> string" where
  "get_file_type file_path =
     (case map_of type_mapping (py_lower (path_suffix file_path)) of
        Some t \<Rightarrow> t
      | None \<Rightarrow> ''unknown'')"

definition process_text_file :: "doc_env \<Rightarrow> string \<Rightarrow> extraction_result" where
  "process_text_file env file_path =
     (case open_read env file_path of
        Inr content \<Rightarrow>
          \<lparr>e_success = True, e_content = [\<lparr>c_type = None, c_content = Some content\<rparr>],
           e_metadata = [''file_type'' \<mapsto> PStr ''txt'', ''file_path'' \<mapsto> PStr file_path],
           e_error = None\<rparr>
      | Inl e \<Rightarrow>
          \<lparr>e_success = False, e_content = [],
           e_metadata = [''file_type'' \<mapsto> PStr ''txt'', ''file_path'' \<mapsto> PStr file_path],
           e_error = Some (str_exc e)\<rparr>)"

text \<open>
  \<open>f"{file_size_mb:.1f}"\<close> for \<open>file_size_mb = st_size / 2 ^ 20\<close>: the value is a binary
  fraction, so the correctly rounded one-decimal rendering is the nearest tenth, a tie going
  to the even tenth.
\<close>

definition fmt_mb_1f :: "nat \<Rightarrow> string" where
  "fmt_mb_1f st_size =
     (let q = (st_size * 10) div 1048576;
          r = (st_size * 10) mod 1048576;
          tenths = (if r > 524288 \<or> (r = 524288 \<and> odd q) then q + 1 else q)
      in str_nat (tenths div 10) @ ''.'' @ str_nat (tenths mod 10))"

text \<open>The loop over the content items (lines 516 to 537): the text and the layout flags.\<close>

fun combine_content ::
  "doc_env \<Rightarrow> content_item list \<Rightarrow> string \<times> metadata \<Rightarrow> string \<times> metadata" where
  "combine_content env [] acc = acc"
| "combine_content env (content_item # rest) (full_text, layout_metadata) =
     (let content_type = (case c_type content_item of None \<Rightarrow> ''text'' | Some t \<Rightarrow> t);
          content = (case c_content content_item of None \<Rightarrow> [] | Some c \<Rightarrow> c)
      in combine_content env rest
           (if content_type = ''table'' then
              (full_text @ table_marked env content,
               layout_metadata(''has_tables'' \<mapsto> PBool True))
            else if content_type = ''formula'' then
              (full_text @ formula_marked env content,
               layout_metadata(''has_formulas'' \<mapsto> PBool True))
            else if content_type = ''text_block'' then
              (full_text @ content @ [CHR 0x0A, CHR 0x0A],
               layout_metadata(''has_text_blocks'' \<mapsto> PBool True))
            else
              (full_text @ content @ [CHR 0x0A, CHR 0x0A], layout_metadata)))"

definition build_metadata :: "doc_env \<Rightarrow> extraction_result \<Rightarrow> nat \<Rightarrow> string \<Rightarrow> metadata \<Rightarrow> metadata" where
  "build_metadata env extraction_result st_size full_text layout_metadata =
     (let m = e_metadata extraction_result;
          base_metadata =
            m ++ [''document_hash'' \<mapsto> PStr (md5_hex env full_text),
                  ''file_size_mb'' \<mapsto> PFloat (int st_size) (- 20),
                  ''total_chars'' \<mapsto> PInt (int (length full_text)),
                  ''layout_aware'' \<mapsto> PBool True]
              ++ layout_metadata
      in if truthy (m ''has_layout_info'') then
           base_metadata ++
             [''ocr_enhanced'' \<mapsto> PBool True,
              ''layout_elements'' \<mapsto> get_or m ''layout_elements'' (PInt 0),
              ''text_elements'' \<mapsto> get_or m ''text_elements'' (PInt 0),
              ''table_elements'' \<mapsto> get_or m ''table_elements'' (PInt 0),
              ''formula_elements'' \<mapsto> get_or m ''formula_elements'' (PInt 0)]
         else base_metadata)"

text \<open>
  \<open>HebrewTextSplitter.split_text\<close>: every piece of the splitter carries the document's
  metadata and is tagged with its index, the number of pieces and its length.
\<close>

definition split_text :: "doc_env \<Rightarrow> string \<Rightarrow> metadata \<Rightarrow> exc + chunk list" where
  "split_text env text m =
     (case split_text_rec env text of
        Inl e \<Rightarrow> Inl e
      | Inr pieces \<Rightarrow>
          Inr (map (\<lambda>(i, piece).
                 \<lparr>page_content = piece,
                  chunk_metadata =
                    m ++ [''chunk_id'' \<mapsto> PInt (int i),
                          ''total_chunks'' \<mapsto> PInt (int (length pieces)),
                          ''chunk_size'' \<mapsto> PInt (int (length piece))]\<rparr>)
               (zip [0..<length pieces] pieces)))"

record proc_result =
  success :: bool
  error :: "string option"
  documents :: "chunk list"
  metadata :: metadata

text \<open>
  \<open>DocumentProcessor.process_document\<close>. The result is paired with the extractor calls made,
  each a file type with the path (\<open>txt\<close> for \<open>_process_text_file\<close>). The existence test, the
  \<open>stat\<close> and the two checks lie before the \<open>try\<close>, so an exception of \<open>stat\<close> leaves the
  function; everything from the extractor call on is inside it. The size test compares
  \<open>st_size / 2 ^ 20\<close> with the integer maximum, which is \<open>st_size > max * 2 ^ 20\<close>.
\<close>

definition failure :: "string option \<Rightarrow> metadata \<Rightarrow> proc_result" where
  "failure err m = \<lparr>success = False, error = err, documents = [], metadata = m\<rparr>"

definition process_extracted :: "doc_env \<Rightarrow> string \<Rightarrow> nat \<Rightarrow> exc + extraction_result \<Rightarrow> proc_result" where
  "process_extracted env file_path st_size r =
     (case r of
        Inl e \<Rightarrow> failure (Some (str_exc e)) [''file_path'' \<mapsto> PStr file_path]
      | Inr extraction_result \<Rightarrow>
          if \<not> e_success extraction_result
          then failure (e_error extraction_result) (e_metadata extraction_result)
          else
            (case combine_content env (e_content extraction_result) ([], Map.empty) of
               (full_text, layout_metadata) \<Rightarrow>
                 (let base_metadata =
                        build_metadata env extraction_result st_size full_text layout_metadata
                  in case split_text env full_text base_metadata of
                       Inl e \<Rightarrow> failure (Some (str_exc e)) [''file_path'' \<mapsto> PStr file_path]
                     | Inr chunks \<Rightarrow>
                         \<lparr>success = True, error = None, documents = chunks,
                          metadata = base_metadata\<rparr>)))"

definition process_document ::
  "doc_env \<Rightarrow> string \<Rightarrow> (string \<times> string) list \<times> (exc + proc_result)" where
  "process_document env file_path =
     (if \<not> path_exists env file_path
      then ([], Inr (failure (Some (''File not found: '' @ file_path)) Map.empty))
      else case stat_size env file_path of
        Inl e \<Rightarrow> ([], Inl e)
      | Inr st_size \<Rightarrow>
          if int st_size > max_file_size_mb env * 1048576
          then ([], Inr (failure
                  (Some (''File too large: '' @ fmt_mb_1f st_size @ ''MB (max: ''
                         @ str_int (max_file_size_mb env) @ ''MB)'')) Map.empty))
          else
            (let file_type = get_file_type file_path
             in if file_type = ''unknown''
                then ([], Inr (failure
                        (Some (''Unsupported file type: '' @ path_suffix file_path)) Map.empty))
                else
                  ([(file_type, file_path)],
                   Inr (process_extracted env file_path st_size
                          (if file_type = ''txt'' then Inr (process_text_file env file_path)
                           else extract_text env file_type file_path)))))"

subsection \<open>Batches\<close>

record success_entry =
  s_file_path :: string
  s_documents :: "chunk list"
  s_metadata :: metadata

record failure_entry =
  x_file_path :: string
  x_error :: "string option"

record batch_report =
  successful :: "success_entry list"
  failed :: "failure_entry list"
  total_documents :: nat
  total_chunks :: nat
  memory_usage :: json

text \<open>
  The body of the loop over \<open>zip(batch_files, batch_results)\<close>: an exception that
  \<open>asyncio.gather(..., return_exceptions=True)\<close> handed back, a success, or a failure result.
\<close>

definition add_result :: "batch_report \<Rightarrow> string \<times> (exc + proc_result) \<Rightarrow> batch_report" where
  "add_result results fr =
     (case fr of (file_path, result) \<Rightarrow>
        (case result of
           Inl e \<Rightarrow>
             results\<lparr>failed := failed results
                        @ [\<lparr>x_file_path = file_path, x_error = Some (str_exc e)\<rparr>]\<rparr>
         | Inr r \<Rightarrow>
             if success r then
               results\<lparr>successful := successful results
                          @ [\<lparr>s_file_path = file_path, s_documents = documents r,
                               s_metadata = metadata r\<rparr>],
                        total_chunks := total_chunks results + length (documents r)\<rparr>
             else
               results\<lparr>failed := failed results
                          @ [\<lparr>x_file_path = file_path, x_error = error r\<rparr>]\<rparr>))"

subsection \<open>Images and the memory clean-up\<close>

text \<open>
  Within a batch the processor registered for \<open>image\<close> is \<open>ImageProcessor\<close>, which goes
  through the OCR service in the state it has at that moment; the clean-up after each batch
  changes that state. What the image path needs beyond the OCR collaborators:
  \<^item> whether moving the model to the CPU raises, in \<open>DotsOCRService.cleanup_memory\<close>;
  \<^item> the conversion of a parsed layout into content items with the layout metadata
    (\<open>ImageProcessor.extract_text\<close>, lines 212 to 286), a function of the parsed value alone,
    giving the exception that a malformed element raises.
\<close>

record image_env =
  ocr :: ocr_env
  model_to_cpu :: "exc option"
  layout_items :: "json \<Rightarrow> exc + content_item list \<times> metadata"

text \<open>\<open>layout_data and isinstance(layout_data, dict)\<close>: a dictionary that is not empty.\<close>

definition is_layout_dict :: "json \<Rightarrow> bool" where
  "is_layout_dict j = (case j of JObject kvs \<Rightarrow> kvs \<noteq> [] | _ \<Rightarrow> False)"

text \<open>
  \<open>ImageProcessor.extract_text\<close>, with the state of the OCR services passed in and returned.
  The OCR service is called with the task \<open>full\<close> and the fallback enabled. The raw text is
  the only content item when the layout gives none.
\<close>

definition image_extract_text ::
  "image_env \<Rightarrow> ocr_state \<Rightarrow> string \<Rightarrow> ocr_state \<times> extraction_result" where
  "image_extract_text ienv st file_path =
     (case ocr_extract_text_from_image (ocr ienv) st file_path True ''full'' of
        (st', ocr_result) \<Rightarrow>
          (let m = [''file_type'' \<mapsto> PStr ''image'', ''file_path'' \<mapsto> PStr file_path,
                    ''ocr_method'' \<mapsto> PStr (r_method ocr_result),
                    ''has_layout_info'' \<mapsto> PBool (r_parsed ocr_result \<noteq> JNull)]
           in if r_success ocr_result then
                (case (if is_layout_dict (r_parsed ocr_result)
                       then layout_items ienv (r_parsed ocr_result)
                       else Inr ([], Map.empty)) of
                   Inl e \<Rightarrow>
                     (st', \<lparr>e_success = False, e_content = [],
                            e_metadata = [''file_type'' \<mapsto> PStr ''image'',
                                          ''file_path'' \<mapsto> PStr file_path],
                            e_error = Some (str_exc e)\<rparr>)
                 | Inr (content_items, layout_metadata) \<Rightarrow>
                     (st', \<lparr>e_success = True,
                            e_content =
                              (if content_items = []
                               then [\<lparr>c_type = Some ''raw_text'',
                                      c_content = Some (r_text ocr_result)\<rparr>]
                               else content_items),
                            e_metadata = m ++ layout_metadata, e_error = None\<rparr>))
              else
                (st', \<lparr>e_success = False, e_content = [], e_metadata = m,
                       e_error = r_error ocr_result\<rparr>)))"

text \<open>
  The environment of \<open>process_document\<close> while the OCR services are in state \<open>st\<close>: the
  image processor is the one above, the other processors are the collaborators of \<open>env\<close>.
\<close>

definition wave_env :: "doc_env \<Rightarrow> image_env \<Rightarrow> ocr_state \<Rightarrow> doc_env" where
  "wave_env env ienv st =
     env\<lparr>extract_text :=
           (\<lambda>file_type file_path.
              if file_type = ''image'' then Inr (snd (image_extract_text ienv st file_path))
              else extract_text env file_type file_path)\<rparr>"

text \<open>
  \<open>asyncio.gather(*tasks, return_exceptions=True)\<close> over the files of one batch. The tasks
  start in the order of the list and the OCR calls of a task do not suspend it, so the
  state of the OCR services passes from one file to the next; the outcomes come back in the
  order of the list.
\<close>

fun gather ::
  "doc_env \<Rightarrow> image_env \<Rightarrow> ocr_state \<Rightarrow> string list \<Rightarrow> ocr_state \<times> (exc + proc_result) list" where
  "gather env ienv st [] = (st, [])"
| "gather env ienv st (path # rest) =
     (case process_document (wave_env env ienv st) path of
        (calls, result) \<Rightarrow>
          (let st1 = (if calls = [(''image'', path)]
                      then fst (image_extract_text ienv st path) else st)
           in case gather env ienv st1 rest of
                (st2, results) \<Rightarrow> (st2, result # results)))"

text \<open>
  \<open>DotsOCRService.cleanup_memory\<close> drops the model and the processor; an exception of the
  move to the CPU is caught and leaves both. \<open>_cleanup_batch_memory\<close> calls it when the
  primary engine is available. Nothing loads the model again: \<open>OCRService.initialized\<close>
  stays as it is.
\<close>

definition dots_cleanup_memory :: "image_env \<Rightarrow> ocr_state \<Rightarrow> ocr_state" where
  "dots_cleanup_memory ienv st =
     (if model st then
        (case model_to_cpu ienv of
           Some e \<Rightarrow> st
         | None \<Rightarrow> st\<lparr>model := False, processor := False\<rparr>)
      else st\<lparr>processor := False\<rparr>)"

definition cleanup_batch_memory :: "image_env \<Rightarrow> ocr_state \<Rightarrow> ocr_state" where
  "cleanup_batch_memory ienv st =
     (if dots_is_available (ocr ienv) then dots_cleanup_memory ienv st else st)"

subsection \<open>Batches of five\<close>

text \<open>
  The loop \<open>for i in range(0, total_files, batch_size)\<close> with \<open>batch_size = 5\<close>: the outcomes
  of the batch are gathered, entered into the report, and the memory is cleaned up before
  the next batch. The state of the OCR services is carried along with the report.
\<close>

function process_batches ::
  "doc_env \<Rightarrow> image_env \<Rightarrow> string list \<Rightarrow> nat \<Rightarrow> ocr_state \<times> batch_report
     \<Rightarrow> ocr_state \<times> batch_report" where
  "process_batches env ienv file_paths i acc =
     (if i < length file_paths then
        (let batch_files = take 5 (drop i file_paths)
         in case gather env ienv (fst acc) batch_files of
              (st1, batch_results) \<Rightarrow>
                process_batches env ienv file_paths (i + 5)
                  (cleanup_batch_memory ienv st1,
                   foldl add_result (snd acc) (zip batch_files batch_results)))
      else acc)"
  by pat_completeness auto
termination
  by (relation "measure (\<lambda>(env, ienv, file_paths, i, acc). length file_paths - i)") auto

declare process_batches.simps [simp del]

definition process_multiple_documents ::
  "doc_env \<Rightarrow> image_env \<Rightarrow> json \<Rightarrow> ocr_state \<Rightarrow> string list \<Rightarrow> ocr_state \<times> batch_report" where
  "process_multiple_documents env ienv memory st file_paths =
     (case process_batches env ienv file_paths 0
             (st, \<lparr>successful = [], failed = [], total_documents = 0, total_chunks = 0,
                   memory_usage = JObject []\<rparr>) of
        (st', results) \<Rightarrow>
          (st', results\<lparr>total_documents := length (successful results),
                       memory_usage := memory\<rparr>))"





text \<open>
  A file is invalid in an environment when \<open>process_document\<close> raises on it or returns a
  failure.
\<close>

definition is_invalid :: "doc_env \<Rightarrow> string \<Rightarrow> bool" where
  "is_invalid env path =
     (case snd (process_document env path) of Inl e \<Rightarrow> True | Inr r \<Rightarrow> \<not> success r)"

section \<open>The RAG agent and the vector store (services/rag\_agent.py)\<close>

text \<open>
  Events of a run, in the order they happen: the log records of the indexer, and the scans
  and sleeps of its loop.
\<close>

datatype level = DEBUG | INFO | WARNING | ERROR

datatype event = Log level string | Scan | Sleep nat

text \<open>The content of the processed-files database, as \<open>_save_processed_files\<close> builds it.\<close>

record snapshot =
  n_processed_files :: "string fset"
  n_last_updated :: string
  n_total_processed :: nat

text \<open>
  The collaborators of a scan, beyond those of the document processor (\<open>doc\<close>) and the memory
  report of a batch (\<open>memory\<close>):
  \<^item> \<open>watch_directory.rglob("*")\<close>, a list of paths or the exception raised;
    \<open>Path.is_file\<close>; \<open>Path.stat\<close>, giving \<open>str(st_mtime)\<close> and \<open>st_size\<close> or raising;
    \<open>settings.supported_extensions\<close>;
  \<^item> the collaborators of the image path (\<open>images\<close>);
  \<^item> the initialisation of the RAG agent in three parts, each \<open>None\<close> when it raises
    nothing: the vector store, then the LLM service, which are initialised before the
    document processor, and the construction of the retriever and the agent after it;
    one call of the vector store's \<open>add_documents\<close> for a batch of chunks, and whether
    reading the collection statistics fails;
  \<^item> \<open>settings.processed_files_db\<close>, \<open>datetime.utcnow().isoformat()\<close>, opening the database
    for writing, and \<open>json.dump\<close> as the text it writes or the exception it raises;
  \<^item> a reason for \<open>Path.unlink\<close> to fail.
\<close>

record scan_env =
  doc :: doc_env
  images :: image_env
  memory :: json
  rglob :: "exc + string list"
  is_file :: "string \<Rightarrow> bool"
  stat :: "string \<Rightarrow> exc + (string \<times> nat)"
  supported_extensions :: "string list"
  vector_init :: "exc option"
  llm_init :: "exc option"
  agent_init :: "exc option"
  vector_add :: "chunk list \<Rightarrow> exc + string list"
  stats_fail :: bool
  processed_files_db :: string
  utcnow :: string
  open_w :: "string \<Rightarrow> exc option"
  json_dump :: "snapshot \<Rightarrow> exc + string"
  unlink_fails :: "string \<Rightarrow> exc option"

text \<open>
  What a run changes: the in-memory set of fingerprints and the \<open>running\<close> flag of the
  indexer, whether the RAG agent is initialised, the state of the OCR services, the chunks
  held by the vector store, the files on disk by path (the database among them), the source
  files unlinked, and the events.
\<close>

record world =
  processed_files :: "string fset"
  running :: bool
  rag_initialized :: bool
  ocr_st :: ocr_state
  store :: "chunk list"
  disk :: "string \<rightharpoonup> string"
  unlinked :: "string list"
  trace :: "event list"

definition log :: "level \<Rightarrow> string \<Rightarrow> world \<Rightarrow> world" where
  "log l m w = w\<lparr>trace := trace w @ [Log l m]\<rparr>"

text \<open>
  \<open>QdrantVectorService.add_documents\<close>: batches of 100 chunks, each committed by one call;
  an exception leaves the earlier batches in the store and is raised again.
\<close>

function vector_add_documents ::
  "scan_env \<Rightarrow> chunk list \<Rightarrow> nat \<Rightarrow> chunk list \<times> string list \<Rightarrow> chunk list \<times> (exc + string list)" where
  "vector_add_documents senv docs i acc =
     (case acc of (st, document_ids) \<Rightarrow>
        if i < length docs then
          (let batch = take 100 (drop i docs)
           in case vector_add senv batch of
                Inl e \<Rightarrow> (st, Inl e)
              | Inr batch_ids \<Rightarrow>
                  vector_add_documents senv docs (i + 100) (st @ batch, document_ids @ batch_ids))
        else (st, Inr document_ids))"
  by pat_completeness auto
termination
  by (relation "measure (\<lambda>(senv, docs, i, acc). length docs - i)") auto

declare vector_add_documents.simps [simp del]

record add_report =
  a_success :: bool
  a_documents_added :: nat
  a_document_ids :: "string list"
  a_total_documents :: nat
  a_error :: "string option"

text \<open>
  \<open>HebrewRAGAgent.add_documents\<close>, called with the agent initialised. The statistics give the
  number of points of the collection, or an empty dictionary when reading them fails.
\<close>

definition add_documents :: "scan_env \<Rightarrow> world \<Rightarrow> chunk list \<Rightarrow> world \<times> add_report" where
  "add_documents senv w docs =
     (case vector_add_documents senv docs 0 (store w, []) of
        (st, Inl e) \<Rightarrow>
          (w\<lparr>store := st\<rparr>,
           \<lparr>a_success = False, a_documents_added = 0, a_document_ids = [],
            a_total_documents = 0, a_error = Some (str_exc e)\<rparr>)
      | (st, Inr document_ids) \<Rightarrow>
          (w\<lparr>store := st\<rparr>,
           \<lparr>a_success = True, a_documents_added = length docs, a_document_ids = document_ids,
            a_total_documents = (if stats_fail senv then 0 else length st), a_error = None\<rparr>))"

text \<open>
  The dictionary \<open>process_and_add_files\<close> returns. The shape returned when no document was
  processed has only \<open>success\<close>, \<open>error\<close> and \<open>processing_details\<close>; its other keys are given
  as \<open>0\<close> here and are not read by the indexer, which reads \<open>files_processed\<close> and
  \<open>documents_added\<close> only when \<open>success\<close> is true.
\<close>

record rag_result =
  g_success :: bool
  g_error :: "string option"
  g_files_processed :: nat
  g_files_failed :: nat
  g_total_chunks :: nat
  g_documents_added :: nat
  g_total_documents :: nat
  g_processing_details :: batch_report

text \<open>
  \<open>HebrewRAGAgent.initialize\<close>, for an agent not yet initialised: the vector store and the
  LLM service, then \<open>DocumentProcessor.initialize\<close>, which initialises the OCR service when
  it is not, then the retriever and the agent. Every exception is logged and raised again.
\<close>

definition rag_initialize :: "scan_env \<Rightarrow> world \<Rightarrow> world \<times> exc option" where
  "rag_initialize senv w =
     (case vector_init senv of
        Some e \<Rightarrow> (w, Some e)
      | None \<Rightarrow>
          (case llm_init senv of
             Some e \<Rightarrow> (w, Some e)
           | None \<Rightarrow>
               (let w1 = w\<lparr>ocr_st := ocr_initialize (ocr (images senv)) (ocr_st w)\<rparr>
                in case agent_init senv of
                     Some e \<Rightarrow> (w1, Some e)
                   | None \<Rightarrow> (w1\<lparr>rag_initialized := True\<rparr>, None))))"

text \<open>
  \<open>HebrewRAGAgent.process_and_add_files\<close>, which \<open>RAGService.add_documents_from_files\<close>
  forwards to. The initialisation precedes the \<open>try\<close>, so its exception leaves the function.
\<close>

definition process_and_add_files ::
  "scan_env \<Rightarrow> world \<Rightarrow> string list \<Rightarrow> world \<times> (exc + rag_result)" where
  "process_and_add_files senv w file_paths =
     (case (if rag_initialized w then (w, None) else rag_initialize senv w) of
        (w0, Some e) \<Rightarrow> (w0, Inl e)
      | (w0, None) \<Rightarrow>
          (case process_multiple_documents (doc senv) (images senv) (memory senv) (ocr_st w0)
                  file_paths of
             (st, processing_result) \<Rightarrow>
               (let w1 = w0\<lparr>ocr_st := st\<rparr>
                in if successful processing_result = [] then
                     (w1, Inr \<lparr>g_success = False,
                               g_error = Some ''No documents were successfully processed'',
                               g_files_processed = 0, g_files_failed = 0, g_total_chunks = 0,
                               g_documents_added = 0, g_total_documents = 0,
                               g_processing_details = processing_result\<rparr>)
                   else
                     (let all_documents = concat (map s_documents (successful processing_result))
                      in case add_documents senv w1 all_documents of
                           (w2, added) \<Rightarrow>
                             (w2, Inr \<lparr>g_success = a_success added,
                                       g_error = a_error added,
                                       g_files_processed = length (successful processing_result),
                                       g_files_failed = length (failed processing_result),
                                       g_total_chunks = length all_documents,
                                       g_documents_added = a_documents_added added,
                                       g_total_documents = a_total_documents added,
                                       g_processing_details = processing_result\<rparr>)))))"

section \<open>The periodic indexer (services/periodic\_indexer.py)\<close>

subsection \<open>Fingerprints\<close>

text \<open>
  \<open>_get_file_hash\<close>: the MD5 of \<open>name_mtime_size\<close>, or, when \<open>stat\<close> raises, the logged
  error and the MD5 of the name alone.
\<close>

definition get_file_hash :: "scan_env \<Rightarrow> world \<Rightarrow> string \<Rightarrow> world \<times> string" where
  "get_file_hash senv w file_path =
     (case stat senv file_path of
        Inr (st_mtime, st_size) \<Rightarrow>
          (w, md5_hex (doc senv) (path_name file_path @ ''_'' @ st_mtime @ ''_'' @ str_nat st_size))
      | Inl e \<Rightarrow>
          (log ERROR (''Error generating file hash for '' @ file_path @ '': '' @ str_exc e) w,
           md5_hex (doc senv) (path_name file_path)))"

subsection \<open>The database of processed files\<close>

text \<open>
  \<open>_save_processed_files\<close> opens the database itself with mode \<open>w\<close> and dumps into it. The
  operations on the disk are kept as a list, run in order: opening for writing empties the
  file, writing appends to it. A dump that raises is taken to have written nothing after
  the file was opened.
\<close>

datatype fs_op = Open_truncate string | Write string string | Close string

fun apply_op :: "(string \<rightharpoonup> string) \<Rightarrow> fs_op \<Rightarrow> (string \<rightharpoonup> string)" where
  "apply_op d (Open_truncate path) = d(path \<mapsto> [])"
| "apply_op d (Write path s) = d(path \<mapsto> (case d path of None \<Rightarrow> s | Some old \<Rightarrow> old @ s))"
| "apply_op d (Close path) = d"

definition run_ops :: "fs_op list \<Rightarrow> (string \<rightharpoonup> string) \<Rightarrow> (string \<rightharpoonup> string)" where
  "run_ops ops d = foldl apply_op d ops"

fun op_path :: "fs_op \<Rightarrow> string" where
  "op_path (Open_truncate path) = path"
| "op_path (Write path s) = path"
| "op_path (Close path) = path"

definition snapshot_of :: "scan_env \<Rightarrow> world \<Rightarrow> snapshot" where
  "snapshot_of senv w =
     \<lparr>n_processed_files = processed_files w, n_last_updated = utcnow senv,
      n_total_processed = fcard (processed_files w)\<rparr>"

definition save_ops :: "scan_env \<Rightarrow> string \<Rightarrow> fs_op list" where
  "save_ops senv text =
     [Open_truncate (processed_files_db senv), Write (processed_files_db senv) text,
      Close (processed_files_db senv)]"

definition save_processed_files :: "scan_env \<Rightarrow> world \<Rightarrow> world" where
  "save_processed_files senv w =
     (case open_w senv (processed_files_db senv) of
        Some e \<Rightarrow> log ERROR (''Error saving processed files database: '' @ str_exc e) w
      | None \<Rightarrow>
          (case json_dump senv (snapshot_of senv w) of
             Inl e \<Rightarrow>
               log ERROR (''Error saving processed files database: '' @ str_exc e)
                 (w\<lparr>disk := run_ops [Open_truncate (processed_files_db senv),
                                      Close (processed_files_db senv)] (disk w)\<rparr>)
           | Inr text \<Rightarrow>
               log DEBUG (''Saved '' @ str_nat (fcard (processed_files w))
                          @ '' processed files to database'')
                 (w\<lparr>disk := run_ops (save_ops senv text) (disk w)\<rparr>)))"

subsection \<open>Processing new files\<close>

fun cleanup_processed_files :: "scan_env \<Rightarrow> world \<Rightarrow> string list \<Rightarrow> world" where
  "cleanup_processed_files senv w [] = w"
| "cleanup_processed_files senv w (file_path # rest) =
     cleanup_processed_files senv
       (case unlink_fails senv file_path of
          Some e \<Rightarrow>
            log WARNING (''Failed to delete file '' @ file_path @ '': '' @ str_exc e) w
        | None \<Rightarrow>
            log DEBUG (''Deleted processed file: '' @ file_path)
              (w\<lparr>unlinked := unlinked w @ [file_path]\<rparr>))
       rest"

text \<open>The loop \<open>for file_hash in file_hashes: self.processed_files.add(file_hash)\<close>.\<close>

definition mark_processed :: "string list \<Rightarrow> world \<Rightarrow> world" where
  "mark_processed file_hashes w =
     w\<lparr>processed_files :=
         foldl (\<lambda>s file_hash. finsert file_hash s) (processed_files w) file_hashes\<rparr>"

text \<open>
  \<open>_process_new_files\<close>. When the result of the RAG service has \<open>success\<close> true, the loop
  \<open>for file_hash in file_hashes\<close> adds every fingerprint of the batch, the database is saved
  and every file of the batch is unlinked.
\<close>

definition process_new_files :: "scan_env \<Rightarrow> world \<Rightarrow> (string \<times> string) list \<Rightarrow> world" where
  "process_new_files senv w new_files =
     (let file_paths = map fst new_files;
          file_hashes = map snd new_files
      in case process_and_add_files senv w file_paths of
           (w1, Inl e) \<Rightarrow> log ERROR (''Error processing new files: '' @ str_exc e) w1
         | (w1, Inr result) \<Rightarrow>
             if g_success result then
               (let w2 = mark_processed file_hashes w1;
                    w3 = save_processed_files senv w2;
                    w4 = log INFO (''Successfully indexed '' @ str_nat (g_files_processed result)
                                   @ '' files'') w3;
                    w5 = log INFO (''Added '' @ str_nat (g_documents_added result)
                                   @ '' document chunks'') w4
                in cleanup_processed_files senv w5 file_paths)
             else log ERROR (''Failed to index files: '' @ str_opt (g_error result)) w1)"

subsection \<open>Scanning\<close>

text \<open>The loop over \<open>rglob\<close> that collects the files not seen before with their fingerprints.\<close>

fun collect_new_files ::
  "scan_env \<Rightarrow> string list \<Rightarrow> world \<times> (string \<times> string) list \<Rightarrow> world \<times> (string \<times> string) list" where
  "collect_new_files senv [] acc = acc"
| "collect_new_files senv (file_path # rest) (w, new_files) =
     collect_new_files senv rest
       (if is_file senv file_path \<and> py_lower (path_suffix file_path) \<in> set (supported_extensions senv)
        then
          (case get_file_hash senv w file_path of
             (w', file_hash) \<Rightarrow>
               if file_hash |\<notin>| processed_files w' then (w', new_files @ [(file_path, file_hash)])
               else (w', new_files))
        else (w, new_files))"

definition scan_and_index :: "scan_env \<Rightarrow> world \<Rightarrow> world" where
  "scan_and_index senv w =
     (case rglob senv of
        Inl e \<Rightarrow> log ERROR (''Error scanning directory: '' @ str_exc e) w
      | Inr paths \<Rightarrow>
          (case collect_new_files senv paths (w, []) of
             (w1, new_files) \<Rightarrow>
               if new_files \<noteq> [] then
                 process_new_files senv
                   (log INFO (''Found '' @ str_nat (length new_files) @ '' new files to index'') w1)
                   new_files
               else log DEBUG ''No new files found'' w1))"

subsection \<open>Where a stop reaches a scan\<close>

text \<open>
  \<open>stop()\<close> clears \<open>running\<close> and cancels the task of the loop; the task receives
  \<open>CancelledError\<close> where it is suspended. A scan with new files is suspended in two places:
  in the initialisation of the RAG agent, when the agent is not initialised yet and the
  vector store has been initialised (the HTTP requests of the LLM service, before the
  document processor is initialised), and in
  \<open>asyncio.gather\<close> of every batch, while the files of the batch are processed.
  \<open>CancelledError\<close> is not an \<open>Exception\<close>: it passes the handlers of
  \<open>process_and_add_files\<close>, \<open>_process_new_files\<close> and \<open>_scan_and_index\<close> and arrives in the
  loop. The tasks of the batch that have not run are cancelled, the report built so far is
  lost, and nothing has been added to the vector store, the processed set or the database,
  which all come after the last batch.

  \<open>Stop_in_batch j m\<close> is a stop during \<open>gather\<close> of batch \<open>j\<close> (counted from 0) after \<open>m\<close>
  of its files were processed.
\<close>

datatype scan_stop = No_stop | Stop_in_rag_init | Stop_in_batch nat nat

text \<open>The state of the OCR services when batch \<open>j\<close> of a list starts.\<close>

fun ocr_state_before_batch ::
  "doc_env \<Rightarrow> image_env \<Rightarrow> string list \<Rightarrow> ocr_state \<Rightarrow> nat \<Rightarrow> ocr_state" where
  "ocr_state_before_batch env ienv file_paths st 0 = st"
| "ocr_state_before_batch env ienv file_paths st (Suc j) =
     cleanup_batch_memory ienv
       (fst (gather env ienv (ocr_state_before_batch env ienv file_paths st j)
               (take 5 (drop (5 * j) file_paths))))"

text \<open>
  What a stop leaves of \<open>process_and_add_files\<close>: \<open>None\<close> when the processing is not
  suspended at the place named (the agent is initialised already, the initialisation of the
  vector store raises before the LLM service is asked, the initialisation raises before any
  batch, or there is no such batch), so that the stop does not fall into it.
\<close>

definition batch_stopped :: "scan_env \<Rightarrow> world \<Rightarrow> string list \<Rightarrow> scan_stop \<Rightarrow> world option" where
  "batch_stopped senv w file_paths sp =
     (case sp of
        No_stop \<Rightarrow> None
      | Stop_in_rag_init \<Rightarrow>
          if rag_initialized w \<or> vector_init senv \<noteq> None then None else Some w
      | Stop_in_batch j m \<Rightarrow>
          (case (if rag_initialized w then (w, None) else rag_initialize senv w) of
             (w0, Some e) \<Rightarrow> None
           | (w0, None) \<Rightarrow>
               if 5 * j < length file_paths \<and> m \<le> length (take 5 (drop (5 * j) file_paths))
               then
                 Some (w0\<lparr>ocr_st :=
                         fst (gather (doc senv) (images senv)
                                (ocr_state_before_batch (doc senv) (images senv) file_paths
                                   (ocr_st w0) j)
                                (take m (take 5 (drop (5 * j) file_paths))))\<rparr>)
               else None))"

text \<open>
  What a stop leaves of \<open>_scan_and_index\<close>. A scan that cannot list the directory or finds
  no new file is not suspended anywhere.
\<close>

definition scan_stopped :: "scan_env \<Rightarrow> world \<Rightarrow> scan_stop \<Rightarrow> world option" where
  "scan_stopped senv w sp =
     (case rglob senv of
        Inl e \<Rightarrow> None
      | Inr paths \<Rightarrow>
          (case collect_new_files senv paths (w, []) of
             (w1, new_files) \<Rightarrow>
               if new_files \<noteq> [] then
                 batch_stopped senv
                   (log INFO (''Found '' @ str_nat (length new_files) @ '' new files to index'') w1)
                   (map fst new_files) sp
               else None))"

subsection \<open>The loop\<close>

text \<open>
  \<open>_indexing_loop\<close> runs until it is stopped, so a run is observed for a finite number of
  iterations: one \<open>iteration\<close> per passage through the loop body, giving the environment of
  its scan, where a stop reaches the scan if it does, and how its sleep ends. \<open>Elapsed\<close> is
  the interval passing. \<open>Stopped\<close> is \<open>stop()\<close> being called during the sleep, which raises
  \<open>CancelledError\<close> there. \<open>Sleep_raised\<close> is the sleep raising another exception. A stop
  named for a scan that is not suspended at that place does not fall into the scan, and the
  passage goes on to its sleep. Every \<open>Exception\<close> of a scan is caught by \<open>_scan_and_index\<close>
  itself; \<open>CancelledError\<close>, from the scan or from the sleep, is caught by the loop, which
  logs it and leaves.

  The result says whether the loop has left (\<open>Exited\<close>), has been left by an exception raised
  in the handler's own sleep (\<open>Raised\<close>), or is still going when the observation ends
  (\<open>Looping\<close>).
\<close>

datatype wake = Elapsed | Stopped | Sleep_raised exc

record iteration =
  it_env :: scan_env
  it_scan_stop :: scan_stop
  it_sleep :: wake
  it_handler_sleep :: wake

datatype loop_status = Looping | Exited | Raised

fun indexing_loop :: "nat \<Rightarrow> iteration list \<Rightarrow> world \<Rightarrow> world \<times> loop_status" where
  "indexing_loop scan_interval [] w = (w, if running w then Looping else Exited)"
| "indexing_loop scan_interval (it # its) w =
     (if \<not> running w then (w, Exited)
      else
        (case scan_stopped (it_env it) (w\<lparr>trace := trace w @ [Scan]\<rparr>) (it_scan_stop it) of
           Some wc \<Rightarrow> (log INFO ''Indexing loop cancelled'' (wc\<lparr>running := False\<rparr>), Exited)
         | None \<Rightarrow>
             (let w1 = scan_and_index (it_env it) (w\<lparr>trace := trace w @ [Scan]\<rparr>);
                  w2 = w1\<lparr>trace := trace w1 @ [Sleep scan_interval]\<rparr>
              in case it_sleep it of
                   Elapsed \<Rightarrow> indexing_loop scan_interval its w2
                 | Stopped \<Rightarrow>
                     (log INFO ''Indexing loop cancelled'' (w2\<lparr>running := False\<rparr>), Exited)
                 | Sleep_raised e \<Rightarrow>
                     (let w3 = log ERROR (''Error in indexing loop: '' @ str_exc e) w2;
                          w4 = w3\<lparr>trace := trace w3 @ [Sleep scan_interval]\<rparr>
                      in case it_handler_sleep it of
                           Elapsed \<Rightarrow> indexing_loop scan_interval its w4
                         | Stopped \<Rightarrow> (w4\<lparr>running := False\<rparr>, Raised)
                         | Sleep_raised e' \<Rightarrow> (w4, Raised)))))"

definition force_scan :: "bool \<Rightarrow> scan_env \<Rightarrow> world \<Rightarrow> world" where
  "force_scan enabled senv w =
     (if \<not> enabled then log WARNING ''Periodic indexing is disabled'' w
      else scan_and_index senv (log INFO ''Forcing immediate directory scan'' w))"

text \<open>The scans and sleeps of a trace, without the log records.\<close>

fun is_log :: "event \<Rightarrow> bool" where
  "is_log (Log l m) = True"
| "is_log Scan = False"
| "is_log (Sleep n) = False"

definition schedule :: "event list \<Rightarrow> event list" where
  "schedule evs = filter (\<lambda>e. \<not> is_log e) evs"

text \<open>
  \<open>only_logs w w'\<close>: from \<open>w\<close> to \<open>w'\<close> the \<open>running\<close> flag is unchanged and the trace has
  grown by log records only.
\<close>

definition only_logs :: "world \<Rightarrow> world \<Rightarrow> bool" where
  "only_logs w w' =
     (running w' = running w
      \<and> (\<exists>logs. trace w' = trace w @ logs \<and> list_all is_log logs))"

section \<open>Concrete environments\<close>

text \<open>
  Environments on which the theorems below are instantiated. In \<open>ex_ocr_env\<close> both engines
  are installed and the model loads; the primary engine answers \<open>good.png\<close> with a text that
  is not JSON, raises on every other image, and Tesseract reads \<open>scan.png\<close> and raises on
  every other image.
\<close>

definition ex_ocr_env :: ocr_env where
  "ex_ocr_env =
     \<lparr>DOTS_OCR_AVAILABLE = True, TESSERACT_AVAILABLE = True, platform_is_darwin = False,
      load_model = None, load_processor = None,
      inference = (\<lambda>image_path task_type.
         if image_path = ''good.png'' then Inr ''plain words''
         else Inl (Exception ''CUDA out of memory'')),
      json_loads = (\<lambda>s. Inl (JSONDecodeError ''Expecting value: line 1 column 1 (char 0)'')),
      image_to_string = (\<lambda>image_path.
         if image_path = ''scan.png'' then Inr '' invoice 42 ''
         else Inl (Exception ''cannot identify image file''))\<rparr>"

definition ex_ocr_state :: ocr_state where
  "ex_ocr_state = \<lparr>model = True, processor = True, initialized = True\<rparr>"

text \<open>
  In \<open>ex_pdf_env\<close> every PDF has one page, rasterising and saving succeed, and nothing
  prevents a removal.
\<close>

definition ex_pdf_env :: pdf_env where
  "ex_pdf_env =
     \<lparr>fitz_import = None, fitz_open = (\<lambda>pdf_path. Inr 1),
      get_pixmap = (\<lambda>pdf_path page_num dpi. None), pix_save = (\<lambda>path. None),
      remove_fails = (\<lambda>path. None), py_hash = (\<lambda>s. 7),
      page_header = (\<lambda>n. ''--- page '' @ str_nat n @ '' ---''),
      page_error_header = (\<lambda>n. ''--- page '' @ str_nat n @ '' (error) ---'')\<rparr>"

text \<open>
  In \<open>ex_doc_env\<close> the limit is 100 MB; \<open>big.xyz\<close> and \<open>huge.pdf\<close> have 200 MB, every other
  file 2 KB; \<open>note.txt\<close> reads as text; the extractor of \<open>report.pdf\<close> returns one page and
  every other extraction fails.
\<close>

definition ex_doc_env :: doc_env where
  "ex_doc_env =
     \<lparr>path_exists = (\<lambda>p. p \<noteq> ''gone.txt''),
      stat_size = (\<lambda>p. if p = ''big.xyz'' \<or> p = ''huge.pdf'' then Inr 209715200
                        else if p = ''locked.txt'' then Inl (Exception ''Permission denied'')
                        else Inr 2048),
      max_file_size_mb = 100,
      open_read = (\<lambda>p. if p = ''note.txt'' then Inr ''hello''
                        else Inl (Exception ''invalid start byte'')),
      extract_text = (\<lambda>file_type p.
         if p = ''report.pdf''
         then Inr \<lparr>e_success = True,
                   e_content = [\<lparr>c_type = None, c_content = Some ''page one''\<rparr>],
                   e_metadata = [''file_type'' \<mapsto> PStr ''pdf''], e_error = None\<rparr>
         else Inr \<lparr>e_success = False, e_content = [],
                   e_metadata = [''file_type'' \<mapsto> PStr file_type],
                   e_error = Some ''cannot open''\<rparr>),
      table_marked = (\<lambda>c. ''[table]'' @ c @ ''[/table]''),
      formula_marked = (\<lambda>c. ''[formula]'' @ c @ ''[/formula]''),
      md5_hex = (\<lambda>s. ''md5:'' @ s),
      split_text_rec = (\<lambda>s. Inr [s])\<rparr>"

text \<open>
  In \<open>ex_image_env\<close> the OCR collaborators are those of \<open>ex_ocr_env\<close>, the model can be
  moved to the CPU, and no layout gives content items. \<open>ex_images\<close> is a list of six paths
  to one image, \<open>good.png\<close>, which the primary engine reads and Tesseract does not.
\<close>

definition ex_image_env :: image_env where
  "ex_image_env =
     \<lparr>ocr = ex_ocr_env, model_to_cpu = None, layout_items = (\<lambda>j. Inr ([], Map.empty))\<rparr>"





text \<open>
  In \<open>ex_scan_env\<close> the watch directory lists \<open>note.txt\<close> and \<open>broken.pdf\<close>, processed as
  \<open>ex_doc_env\<close> says; \<open>stat\<close> raises on \<open>ghost.txt\<close>; the vector store accepts every batch;
  the database can be opened and dumped; every file can be unlinked. \<open>ex_idle_env\<close> is the
  same with an empty watch directory. \<open>ex_world\<close> is an indexer that runs, has processed
  nothing, has the OCR model loaded, and whose database holds an earlier snapshot.
\<close>

definition ex_scan_env :: scan_env where
  "ex_scan_env =
     \<lparr>doc = ex_doc_env, images = ex_image_env, memory = JNull,
      rglob = Inr [''note.txt'', ''broken.pdf''],
      is_file = (\<lambda>p. True),
      stat = (\<lambda>p. if p = ''ghost.txt'' then Inl (Exception ''Permission denied'')
                   else if p = ''broken.pdf'' then Inr (''1700000000.5'', 2048)
                   else Inr (''1700000000.0'', 5)),
      supported_extensions =
        [''.pdf'', ''.docx'', ''.doc'', ''.txt'', ''.png'', ''.jpg'', ''.jpeg'', ''.mp3'', ''.wav'',
         ''.m4a'', ''.flac''],
      vector_init = None, llm_init = None, agent_init = None,
      vector_add = (\<lambda>batch. Inr (map (\<lambda>c. ''id'') batch)),
      stats_fail = False,
      processed_files_db = ''processed_files.json'',
      utcnow = ''2024-01-01T00:00:00'',
      open_w = (\<lambda>p. None),
      json_dump = (\<lambda>s. Inr (''{total_processed: '' @ str_nat (n_total_processed s) @ ''}'')),
      unlink_fails = (\<lambda>p. None)\<rparr>"

definition ex_idle_env :: scan_env where
  "ex_idle_env = ex_scan_env\<lparr>rglob := Inr []\<rparr>"

definition ex_world :: world where
  "ex_world =
     \<lparr>processed_files = {||}, running = True, rag_initialized = True,
      ocr_st = ex_ocr_state, store = [],
      disk = [''processed_files.json'' \<mapsto> ''{total_processed: 0}''], unlinked = [],
      trace = []\<rparr>"

text \<open>The same indexer after \<open>ghost.txt\<close> was recorded under the hash of its name.\<close>

definition ex_seen_world :: world where
  "ex_seen_world = ex_world\<lparr>processed_files := {|''md5:ghost.txt''|}\<rparr>"

text \<open>The chunk and the metadata that \<open>ex_doc_env\<close> gives for \<open>note.txt\<close>.\<close>

definition ex_note_metadata :: metadata where
  "ex_note_metadata =
     build_metadata ex_doc_env (process_text_file ex_doc_env ''note.txt'') 2048
       (''hello'' @ [CHR 0x0A, CHR 0x0A]) Map.empty"

definition ex_note_chunk :: chunk where
  "ex_note_chunk =
     \<lparr>page_content = ''hello'' @ [CHR 0x0A, CHR 0x0A],
      chunk_metadata = ex_note_metadata
        ++ [''chunk_id'' \<mapsto> PInt 0, ''total_chunks'' \<mapsto> PInt 1, ''chunk_size'' \<mapsto> PInt 7]\<rparr>"

text \<open>
  Four passages through the loop: an idle one, one whose scan cannot list the directory,
  one during whose sleep \<open>stop()\<close> is called, and one whose scan finds the two files of
  \<open>ex_scan_env\<close> and is reached by \<open>stop()\<close> while the first batch is gathered, after one
  file.
\<close>

definition ex_iter_idle :: iteration where
  "ex_iter_idle =
     \<lparr>it_env = ex_idle_env, it_scan_stop = No_stop, it_sleep = Elapsed,
      it_handler_sleep = Elapsed\<rparr>"

definition ex_iter_error :: iteration where
  "ex_iter_error =
     \<lparr>it_env = ex_scan_env\<lparr>rglob := Inl (Exception ''Permission denied'')\<rparr>,
      it_scan_stop = No_stop, it_sleep = Elapsed, it_handler_sleep = Elapsed\<rparr>"

definition ex_iter_stop :: iteration where
  "ex_iter_stop =
     \<lparr>it_env = ex_idle_env, it_scan_stop = No_stop, it_sleep = Stopped,
      it_handler_sleep = Elapsed\<rparr>"

definition ex_iter_stop_in_scan :: iteration where
  "ex_iter_stop_in_scan =
     \<lparr>it_env = ex_scan_env, it_scan_stop = Stop_in_batch 0 1, it_sleep = Elapsed,
      it_handler_sleep = Elapsed\<rparr>"

text \<open>
  The state of the OCR services after a clean-up, the error of the OCR service when the
  model is gone and Tesseract cannot read the image, and the outcomes of \<open>good.png\<close> in a
  batch that starts with the model loaded and in one that starts without it.
\<close>

definition ex_unloaded :: ocr_state where
  "ex_unloaded = \<lparr>model = False, processor = False, initialized = True\<rparr>"




section \<open>Properties of the OCR services\<close>




text \<open>
  C1. \<open>OCRService.extract_text_from_image\<close> with the fallback enabled (the default). Suppose
  the primary engine is available and raises \<open>e1\<close> on the image. If the fallback engine then
  returns a text, the result has \<open>method = "tesseract"\<close>, \<open>success\<close> true, that text, and no
  error. If the fallback engine, being available and therefore called, raises \<open>e2\<close>, the
  result has \<open>success\<close> false and the error message
  \<open>Both OCR methods failed. Dots: e1, Tesseract: e2\<close>, which contains both messages.
  An engine raises only when it is called: the service calls an engine only after its
  \<open>is_available()\<close>, and a fallback that returns a text is available by its own check.
\<close>

theorem ocr_fallback_chain:
  assumes "dots_is_available env"
    and "dots_extract_text_from_image env (ocr_initialize env st) image_path task_type = Inl e1"
  shows "(tesseract_extract_text_from_image env image_path = Inr t \<longrightarrow>
            (let r = snd (ocr_extract_text_from_image env st image_path True task_type)
             in r_success r \<and> r_method r = ''tesseract'' \<and> r_text r = t \<and> r_error r = None))
       \<and> (tesseract_is_available env
            \<and> tesseract_extract_text_from_image env image_path = Inl e2 \<longrightarrow>
            (let r = snd (ocr_extract_text_from_image env st image_path True task_type);
                 msg = ''Both OCR methods failed. Dots: '' @ str_exc e1
                       @ '', Tesseract: '' @ str_exc e2
             in \<not> r_success r \<and> r_error r = Some msg
                \<and> sublist (str_exc e1) msg \<and> sublist (str_exc e2) msg))"
proof -
  have avail: "tesseract_is_available env"
    if "tesseract_extract_text_from_image env image_path = Inr t"
    using that by (auto simp: tesseract_extract_text_from_image_def split: if_splits)
  have s1: "sublist (str_exc e1)
              (''Both OCR methods failed. Dots: '' @ str_exc e1 @ '', Tesseract: '' @ str_exc e2)"
    by (rule sublist_appendI)
  have s2: "sublist (str_exc e2)
              ((''Both OCR methods failed. Dots: '' @ str_exc e1 @ '', Tesseract: '') @ str_exc e2)"
    by (rule sublist_append_leftI)
  show ?thesis
    using assms avail s1 s2
    by (auto simp: ocr_extract_text_from_image_def ocr_fallback_def Let_def str_opt_def)
qed

theorem ocr_fallback_chain_witness:
  "dots_is_available ex_ocr_env
   \<and> dots_extract_text_from_image ex_ocr_env (ocr_initialize ex_ocr_env ex_ocr_state)
        ''scan.png'' ''full'' = Inl (Exception ''CUDA out of memory'')
   \<and> tesseract_extract_text_from_image ex_ocr_env ''scan.png'' = Inr ''invoice 42''
   \<and> r_success (snd (ocr_extract_text_from_image ex_ocr_env ex_ocr_state ''scan.png'' True ''full''))
   \<and> r_method (snd (ocr_extract_text_from_image ex_ocr_env ex_ocr_state ''scan.png'' True ''full''))
       = ''tesseract''
   \<and> dots_extract_text_from_image ex_ocr_env (ocr_initialize ex_ocr_env ex_ocr_state)
        ''blur.png'' ''full'' = Inl (Exception ''CUDA out of memory'')
   \<and> tesseract_is_available ex_ocr_env
   \<and> tesseract_extract_text_from_image ex_ocr_env ''blur.png''
       = Inl (Exception ''cannot identify image file'')
   \<and> \<not> r_success (snd (ocr_extract_text_from_image ex_ocr_env ex_ocr_state ''blur.png'' True ''full''))
   \<and> r_error (snd (ocr_extract_text_from_image ex_ocr_env ex_ocr_state ''blur.png'' True ''full''))
       = Some (''Both OCR methods failed. Dots: CUDA out of memory, ''
               @ ''Tesseract: cannot identify image file'')"
proof -
  have a: "dots_is_available ex_ocr_env"
    by (simp add: dots_is_available_def ex_ocr_env_def)
  have ta: "tesseract_is_available ex_ocr_env"
    by (simp add: tesseract_is_available_def ex_ocr_env_def)
  have d1: "dots_extract_text_from_image ex_ocr_env (ocr_initialize ex_ocr_env ex_ocr_state)
              ''scan.png'' ''full'' = Inl (Exception ''CUDA out of memory'')"
    by (simp add: dots_extract_text_from_image_def ocr_initialize_def ex_ocr_state_def
        ex_ocr_env_def)
  have d2: "dots_extract_text_from_image ex_ocr_env (ocr_initialize ex_ocr_env ex_ocr_state)
              ''blur.png'' ''full'' = Inl (Exception ''CUDA out of memory'')"
    by (simp add: dots_extract_text_from_image_def ocr_initialize_def ex_ocr_state_def
        ex_ocr_env_def)
  have t1: "tesseract_extract_text_from_image ex_ocr_env ''scan.png'' = Inr ''invoice 42''"
    by (simp add: tesseract_extract_text_from_image_def tesseract_is_available_def
        ex_ocr_env_def py_strip_def py_isspace_def)
  have t2: "tesseract_extract_text_from_image ex_ocr_env ''blur.png''
              = Inl (Exception ''cannot identify image file'')"
    by (simp add: tesseract_extract_text_from_image_def tesseract_is_available_def
        ex_ocr_env_def)
  show ?thesis
    using a ta d1 d2 t1 t2
      ocr_fallback_chain [OF a d1, of "''invoice 42''" "Exception ''cannot identify image file''"]
      ocr_fallback_chain [OF a d2, of "''invoice 42''" "Exception ''cannot identify image file''"]
    by (simp add: Let_def)
qed

text \<open>
  C6. The temporary page image is not removed when the OCR call on the page raises. With a
  one-page PDF on whose page the primary engine raises, the file written for the page is
  still there when \<open>extract_text_from_pdf\<close> returns: the removal stands after the OCR call
  inside the \<open>try\<close>, and the handler of the page does not remove anything.
\<close>

theorem pdf_temp_image_left_when_ocr_raises:
  "inference ex_ocr_env ''/tmp/dots_ocr_pdf_0_7.png'' ''full'' = Inl (Exception ''CUDA out of memory'')
   \<and> fst (dots_extract_text_from_pdf ex_ocr_env ex_pdf_env ex_ocr_state {} ''doc.pdf'' ''full'' 200)
       = {''/tmp/dots_ocr_pdf_0_7.png''}"
  by (simp add: dots_extract_text_from_pdf_def ex_ocr_state_def ex_pdf_env_def process_page_def
      temp_image_path_def str_int_def str_nat.simps digit_char_def
      dots_extract_text_from_image_def
      ex_ocr_env_def error_page_def Let_def)

theorem pdf_temp_image_left_when_ocr_raises_witness:
  "model ex_ocr_state \<and> processor ex_ocr_state
   \<and> ''/tmp/dots_ocr_pdf_0_7.png''
       \<in> fst (dots_extract_text_from_pdf ex_ocr_env ex_pdf_env ex_ocr_state {} ''doc.pdf''
                ''full'' 200)"
  using pdf_temp_image_left_when_ocr_raises by (simp add: ex_ocr_state_def)

section \<open>Properties of the document processor\<close>

text \<open>
  C9. For an existing file whose size exceeds the configured maximum, \<open>process_document\<close>
  makes no extractor call and returns a failure whose error is
  \<open>File too large: <size>MB (max: <max>MB)\<close>, with the size in MB to one decimal and the
  configured maximum; both renderings occur in the message.
\<close>

theorem oversized_file_is_rejected:
  assumes "path_exists env f" and "stat_size env f = Inr n"
    and "int n > max_file_size_mb env * 1048576"
  shows "(let msg = ''File too large: '' @ fmt_mb_1f n @ ''MB (max: ''
                      @ str_int (max_file_size_mb env) @ ''MB)''
          in process_document env f = ([], Inr (failure (Some msg) Map.empty))
             \<and> \<not> success (failure (Some msg) Map.empty)
             \<and> sublist (fmt_mb_1f n) msg \<and> sublist (str_int (max_file_size_mb env)) msg)"
proof -
  have s1: "sublist (fmt_mb_1f n)
              (''File too large: '' @ fmt_mb_1f n
               @ (''MB (max: '' @ str_int (max_file_size_mb env) @ ''MB)''))"
    by (rule sublist_appendI)
  have s2: "sublist (str_int (max_file_size_mb env))
              ((''File too large: '' @ fmt_mb_1f n @ ''MB (max: '')
               @ str_int (max_file_size_mb env) @ ''MB)'')"
    by (rule sublist_appendI)
  show ?thesis
    using assms s1 s2 by (simp add: process_document_def Let_def failure_def)
qed

theorem oversized_file_is_rejected_witness:
  "path_exists ex_doc_env ''huge.pdf'' \<and> stat_size ex_doc_env ''huge.pdf'' = Inr 209715200
   \<and> int 209715200 > max_file_size_mb ex_doc_env * 1048576
   \<and> process_document ex_doc_env ''huge.pdf''
       = ([], Inr (failure (Some ''File too large: 200.0MB (max: 100MB)'') Map.empty))"
proof -
  have e: "path_exists ex_doc_env ''huge.pdf''" by (simp add: ex_doc_env_def)
  have s: "stat_size ex_doc_env ''huge.pdf'' = Inr 209715200" by (simp add: ex_doc_env_def)
  have g: "int 209715200 > max_file_size_mb ex_doc_env * 1048576" by (simp add: ex_doc_env_def)
  have m: "max_file_size_mb ex_doc_env = 100" by (simp add: ex_doc_env_def)
  have r: "fmt_mb_1f 209715200 = ''200.0''"
    by (simp add: fmt_mb_1f_def str_nat.simps digit_char_def Let_def)
  have i: "str_int 100 = ''100''" by (simp add: str_int_def str_nat.simps digit_char_def)
  show ?thesis
    using e s g oversized_file_is_rejected [OF e s g] by (simp add: Let_def m r i)
qed

text \<open>
  C8, as the code has it. The size check stands before the type check. For an existing file
  whose extension is not in the mapping, \<open>process_document\<close> never calls an extractor and
  never returns a success; when the size of the file is within the maximum, it returns the
  failure \<open>Unsupported file type: <suffix>\<close>. (When the size exceeds the maximum the error
  is the size error of C9, and an exception of \<open>stat\<close> leaves the function.)
\<close>

theorem unsupported_type_is_rejected:
  assumes "path_exists env f" and "get_file_type f = ''unknown''"
  shows "fst (process_document env f) = []
       \<and> (\<forall>r. snd (process_document env f) = Inr r \<longrightarrow> \<not> success r)
       \<and> (\<forall>n. stat_size env f = Inr n \<and> int n \<le> max_file_size_mb env * 1048576 \<longrightarrow>
            snd (process_document env f)
              = Inr (failure (Some (''Unsupported file type: '' @ path_suffix f)) Map.empty))"
  using assms by (auto simp: process_document_def Let_def failure_def split: sum.splits)

theorem unsupported_type_is_rejected_witness:
  "path_exists ex_doc_env ''notes.xyz'' \<and> get_file_type ''notes.xyz'' = ''unknown''
   \<and> stat_size ex_doc_env ''notes.xyz'' = Inr 2048
   \<and> int 2048 \<le> max_file_size_mb ex_doc_env * 1048576
   \<and> process_document ex_doc_env ''notes.xyz''
       = ([], Inr (failure (Some ''Unsupported file type: .xyz'') Map.empty))"
proof -
  have e: "path_exists ex_doc_env ''notes.xyz''" by (simp add: ex_doc_env_def)
  have t: "get_file_type ''notes.xyz'' = ''unknown''" by code_simp
  have s: "stat_size ex_doc_env ''notes.xyz'' = Inr 2048" by (simp add: ex_doc_env_def)
  have g: "int 2048 \<le> max_file_size_mb ex_doc_env * 1048576" by (simp add: ex_doc_env_def)
  have x: "path_suffix ''notes.xyz'' = ''.xyz''" by code_simp
  have "fst (process_document ex_doc_env ''notes.xyz'') = []
        \<and> snd (process_document ex_doc_env ''notes.xyz'')
            = Inr (failure (Some ''Unsupported file type: .xyz'') Map.empty)"
    using unsupported_type_is_rejected [OF e t] s g x by simp
  then have "process_document ex_doc_env ''notes.xyz''
               = ([], Inr (failure (Some ''Unsupported file type: .xyz'') Map.empty))"
    by (simp add: prod_eq_iff)
  then show ?thesis using e t s g by simp
qed

text \<open>
  C8 as the specification words it, with the unsupported error for every existing
  file of unsupported type, fails on \<open>big.xyz\<close>: the file exists, its type is unknown, it has
  200 MB against a maximum of 100 MB, and the error returned is the size error.
\<close>

theorem unsupported_oversized_counterexample:
  "path_exists ex_doc_env ''big.xyz'' \<and> get_file_type ''big.xyz'' = ''unknown''
   \<and> process_document ex_doc_env ''big.xyz''
       = ([], Inr (failure (Some ''File too large: 200.0MB (max: 100MB)'') Map.empty))
   \<and> error (failure (Some ''File too large: 200.0MB (max: 100MB)'') Map.empty)
       \<noteq> Some (''Unsupported file type: '' @ path_suffix ''big.xyz'')"
  by (simp add: process_document_def ex_doc_env_def fmt_mb_1f_def digit_char_def Let_def
      str_int_def str_nat.simps get_file_type_def path_suffix_def path_name_def py_lower_def lower_char_def
      type_mapping_def failure_def)

section \<open>Properties of the batch orchestrator\<close>
























lemma ex_cleanup:
  "cleanup_batch_memory ex_image_env ex_ocr_state = ex_unloaded"
  "cleanup_batch_memory ex_image_env ex_unloaded = ex_unloaded"
  by (simp_all add: cleanup_batch_memory_def dots_cleanup_memory_def ex_image_env_def
      dots_is_available_def ex_ocr_env_def ex_ocr_state_def ex_unloaded_def)



section \<open>Properties of the periodic indexer\<close>

subsection \<open>Fingerprints\<close>

text \<open>
  Computing a fingerprint changes nothing but the trace, and its value does not depend on
  the state of the indexer. A path whose fingerprint is in the processed set is not
  collected as new.
\<close>

lemma get_file_hash_processed [simp]:
  "processed_files (fst (get_file_hash senv w p)) = processed_files w"
  by (auto simp: get_file_hash_def log_def split: sum.splits prod.splits)

lemma get_file_hash_value:
  "snd (get_file_hash senv w p) = snd (get_file_hash senv w' p)"
  by (auto simp: get_file_hash_def split: sum.splits prod.splits)

lemma collect_new_files_skips:
  assumes "snd (get_file_hash senv w0 p) |\<in>| processed_files w" and "p \<notin> fst ` set acc"
  shows "p \<notin> fst ` set (snd (collect_new_files senv paths (w, acc)))"
  using assms
proof (induction paths arbitrary: w acc)
  case Nil
  then show ?case by simp
next
  case (Cons q paths)
  obtain w' h where g: "get_file_hash senv w q = (w', h)" by (cases "get_file_hash senv w q")
  have pw: "processed_files w' = processed_files w"
    using get_file_hash_processed [of senv w q] g by simp
  have hv: "q = p \<Longrightarrow> h = snd (get_file_hash senv w0 p)"
    using get_file_hash_value [of senv w p w0] g by simp
  show ?case
    using Cons.IH [of w' "acc @ [(q, h)]"] Cons.IH [of w' acc] Cons.IH [of w acc] Cons.prems g pw hv
    by (auto simp: split: if_splits)
qed

text \<open>
  C10. When \<open>stat\<close> raises on a path, the fingerprint is the MD5 of the file name alone:
  it is the same in every environment in which \<open>stat\<close> raises on the path, whatever the
  file's modification time, size or content have become; and once that fingerprint is in
  the processed set, no scan in which \<open>stat\<close> raises on the path collects it as new.
\<close>

theorem stat_failure_fingerprint_is_name_hash:
  assumes "stat senv p = Inl e"
  shows "snd (get_file_hash senv w p) = md5_hex (doc senv) (path_name p)
       \<and> (\<forall>senv' w' e'. stat senv' p = Inl e' \<and> md5_hex (doc senv') = md5_hex (doc senv) \<longrightarrow>
             snd (get_file_hash senv' w' p) = snd (get_file_hash senv w p))
       \<and> (\<forall>paths. md5_hex (doc senv) (path_name p) |\<in>| processed_files w \<longrightarrow>
             p \<notin> fst ` set (snd (collect_new_files senv paths (w, []))))"
proof -
  have h: "snd (get_file_hash senv w p) = md5_hex (doc senv) (path_name p)" for w
    using assms by (simp add: get_file_hash_def)
  have i: "snd (get_file_hash senv' w' p) = snd (get_file_hash senv w p)"
    if "stat senv' p = Inl e'" and "md5_hex (doc senv') = md5_hex (doc senv)" for senv' w' e'
    using that h by (simp add: get_file_hash_def)
  have s: "p \<notin> fst ` set (snd (collect_new_files senv paths (w, [])))"
    if "md5_hex (doc senv) (path_name p) |\<in>| processed_files w" for paths
    using collect_new_files_skips [of senv w p w "[]" paths] that h by simp
  show ?thesis using h i s by blast
qed


theorem stat_failure_fingerprint_is_name_hash_witness:
  "stat ex_scan_env ''ghost.txt'' = Inl (Exception ''Permission denied'')
   \<and> snd (get_file_hash ex_scan_env ex_seen_world ''ghost.txt'') = ''md5:ghost.txt''
   \<and> ''md5:ghost.txt'' |\<in>| processed_files ex_seen_world
   \<and> ''ghost.txt''
       \<notin> fst ` set (snd (collect_new_files ex_scan_env [''note.txt'', ''ghost.txt'']
                          (ex_seen_world, [])))"
proof -
  have s: "stat ex_scan_env ''ghost.txt'' = Inl (Exception ''Permission denied'')"
    by (simp add: ex_scan_env_def)
  have n: "md5_hex (doc ex_scan_env) (path_name ''ghost.txt'') = ''md5:ghost.txt''"
    by (simp add: ex_scan_env_def ex_doc_env_def path_name_def)
  have m: "''md5:ghost.txt'' |\<in>| processed_files ex_seen_world"
    by (simp add: ex_seen_world_def)
  note t = stat_failure_fingerprint_is_name_hash [OF s, of ex_seen_world]
  have h: "snd (get_file_hash ex_scan_env ex_seen_world ''ghost.txt'') = ''md5:ghost.txt''"
    using t by (simp only: n)
  have "\<forall>paths. md5_hex (doc ex_scan_env) (path_name ''ghost.txt'')
                    |\<in>| processed_files ex_seen_world \<longrightarrow>
          ''ghost.txt'' \<notin> fst ` set (snd (collect_new_files ex_scan_env paths (ex_seen_world, [])))"
    using t by blast
  then have "md5_hex (doc ex_scan_env) (path_name ''ghost.txt'')
               |\<in>| processed_files ex_seen_world \<longrightarrow>
          ''ghost.txt'' \<notin> fst ` set (snd (collect_new_files ex_scan_env
                                [''note.txt'', ''ghost.txt''] (ex_seen_world, [])))"
    by (rule spec)
  moreover have "md5_hex (doc ex_scan_env) (path_name ''ghost.txt'')
                   |\<in>| processed_files ex_seen_world"
    using m by (simp only: n)
  ultimately have g: "''ghost.txt'' \<notin> fst ` set (snd (collect_new_files ex_scan_env
                                [''note.txt'', ''ghost.txt''] (ex_seen_world, [])))"
    by (rule mp)
  show ?thesis using s h m g by blast
qed

subsection \<open>The database of processed files\<close>

lemma foldl_finsert: "foldl (\<lambda>s h. finsert h s) S xs = S |\<union>| fset_of_list xs"
  by (induction xs arbitrary: S) auto

text \<open>
  C4, as the code has it. Marking the fingerprints \<open>fps\<close> and saving, with the database
  opened and dumped without exception, leaves the in-memory set equal to the union of the
  old set and \<open>fps\<close>, and the database file holding the dump of that union with the
  timestamp and the count. The write is in place: every operation of the save is on the
  database file itself, and the first one empties it, so that stopping after it leaves an
  empty file where the previous snapshot was.
\<close>

theorem save_writes_union_in_place:
  assumes "open_w senv (processed_files_db senv) = None"
    and "json_dump senv (snapshot_of senv (mark_processed fps w)) = Inr text"
  shows "(let w' = save_processed_files senv (mark_processed fps w);
              db = processed_files_db senv
          in processed_files w' = processed_files w |\<union>| fset_of_list fps
             \<and> snapshot_of senv (mark_processed fps w)
                 = \<lparr>n_processed_files = processed_files w |\<union>| fset_of_list fps,
                    n_last_updated = utcnow senv,
                    n_total_processed = fcard (processed_files w |\<union>| fset_of_list fps)\<rparr>
             \<and> disk w' db = Some text
             \<and> disk w' = run_ops (save_ops senv text) (disk w)
             \<and> (\<forall>op \<in> set (save_ops senv text). op_path op = db)
             \<and> run_ops (take 1 (save_ops senv text)) (disk w) db = Some [])"
  using assms
  by (simp add: save_processed_files_def mark_processed_def snapshot_of_def foldl_finsert
      log_def Let_def save_ops_def run_ops_def)


theorem save_writes_union_in_place_witness:
  "open_w ex_scan_env (processed_files_db ex_scan_env) = None
   \<and> json_dump ex_scan_env (snapshot_of ex_scan_env (mark_processed [''h1'', ''h2'', ''h1''] ex_world))
       = Inr ''{total_processed: 2}''
   \<and> processed_files (save_processed_files ex_scan_env
                        (mark_processed [''h1'', ''h2'', ''h1''] ex_world)) = {|''h1'', ''h2''|}
   \<and> disk (save_processed_files ex_scan_env (mark_processed [''h1'', ''h2'', ''h1''] ex_world))
        ''processed_files.json'' = Some ''{total_processed: 2}''"
proof -
  have o: "open_w ex_scan_env (processed_files_db ex_scan_env) = None"
    by (simp add: ex_scan_env_def)
  have m1: "processed_files (mark_processed [''h1'', ''h2'', ''h1''] ex_world) = {|''h1'', ''h2''|}"
    by (auto simp add: mark_processed_def ex_world_def)
  have c2: "fcard {|''h1'', ''h2''|} = 2"
    by (simp add: fcard_finsert_if)
  have s2: "str_nat 2 = ''2''"
    by (simp add: str_nat.simps digit_char_def)
  have j: "json_dump ex_scan_env (snapshot_of ex_scan_env (mark_processed [''h1'', ''h2'', ''h1''] ex_world))
             = Inr ''{total_processed: 2}''"
    by (simp add: ex_scan_env_def snapshot_of_def m1 c2 s2)
  have p: "processed_files ex_world |\<union>| fset_of_list [''h1'', ''h2'', ''h1''] = {|''h1'', ''h2''|}"
    by (auto simp: ex_world_def)
  have d: "processed_files_db ex_scan_env = ''processed_files.json''"
    by (simp add: ex_scan_env_def)
  note t = save_writes_union_in_place [OF o j, unfolded Let_def]
  have a: "processed_files (save_processed_files ex_scan_env
                        (mark_processed [''h1'', ''h2'', ''h1''] ex_world))
          = processed_files ex_world |\<union>| fset_of_list [''h1'', ''h2'', ''h1'']"
    using t by (rule conjunct1)
  have b: "disk (save_processed_files ex_scan_env (mark_processed [''h1'', ''h2'', ''h1''] ex_world))
            (processed_files_db ex_scan_env) = Some ''{total_processed: 2}''"
    using t by (elim conjE)
  show ?thesis
    using o j a b by (simp only: p d)
qed

text \<open>
  C4 as the specification words it fails: the write-new-then-replace discipline is not
  there. The database of
  \<open>ex_world\<close> holds a snapshot; the save consists of opening that file for writing, one
  write and the close; after the first of them the file is empty; and a dump that raises
  after the file was opened (a full disk) leaves it empty as well.
\<close>

theorem save_truncates_previous_snapshot:
  "disk ex_world ''processed_files.json'' = Some ''{total_processed: 0}''
   \<and> save_ops ex_scan_env ''{total_processed: 2}''
       = [Open_truncate ''processed_files.json'',
          Write ''processed_files.json'' ''{total_processed: 2}'',
          Close ''processed_files.json'']
   \<and> run_ops (take 1 (save_ops ex_scan_env ''{total_processed: 2}'')) (disk ex_world)
        ''processed_files.json'' = Some []
   \<and> disk (save_processed_files
              (ex_scan_env\<lparr>json_dump := (\<lambda>s. Inl (Exception ''No space left on device''))\<rparr>)
              ex_world) ''processed_files.json'' = Some []"
  by (simp add: ex_world_def save_ops_def ex_scan_env_def run_ops_def save_processed_files_def
      log_def)

subsection \<open>Processing new files\<close>

text \<open>The stages of one scan in \<open>ex_scan_env\<close>, evaluated.\<close>

lemma str_nat_5: "str_nat 5 = ''5''"
  by (simp add: str_nat.simps digit_char_def)
lemma str_nat_2048: "str_nat 2048 = ''2048''"
  by (simp add: str_nat.simps digit_char_def)
lemma str_nat_2: "str_nat 2 = ''2''"
  by (simp add: str_nat.simps digit_char_def)
lemma str_nat_1: "str_nat 1 = ''1''"
  by (simp add: str_nat.simps digit_char_def)

lemma ex_suffixes:
  "py_lower (path_suffix ''note.txt'') = ''.txt''"
  "py_lower (path_suffix ''broken.pdf'') = ''.pdf''"
  by code_simp+

lemma ex_names:
  "path_name ''note.txt'' = ''note.txt''"
  "path_name ''broken.pdf'' = ''broken.pdf''"
  by code_simp+

lemma ex_collect:
  "collect_new_files ex_scan_env [''note.txt'', ''broken.pdf''] (ex_world, [])
     = (ex_world, [(''note.txt'', ''md5:note.txt_1700000000.0_5''),
                   (''broken.pdf'', ''md5:broken.pdf_1700000000.5_2048'')])"
  by (simp add: ex_suffixes ex_names str_nat_5 str_nat_2048 get_file_hash_def ex_scan_env_def ex_doc_env_def ex_world_def)


lemma combine_content_extract_text:
  "combine_content (env\<lparr>extract_text := f\<rparr>) items acc = combine_content env items acc"
  by (induction items arbitrary: acc) (auto simp: Let_def)

lemma build_metadata_extract_text:
  "build_metadata (env\<lparr>extract_text := f\<rparr>) r n t m = build_metadata env r n t m"
  by (simp add: build_metadata_def)

lemma split_text_extract_text:
  "split_text (env\<lparr>extract_text := f\<rparr>) t m = split_text env t m"
  by (simp add: split_text_def)

lemma process_extracted_extract_text:
  "process_extracted (env\<lparr>extract_text := f\<rparr>) path n r = process_extracted env path n r"
  by (cases r)
     (auto simp: process_extracted_def combine_content_extract_text
        build_metadata_extract_text split_text_extract_text Let_def
        split: prod.splits sum.splits)

lemma process_document_wave_env:
  "get_file_type path \<noteq> ''image'' \<Longrightarrow>
     process_document (wave_env env ienv st) path = process_document env path"
  by (simp add: process_document_def wave_env_def Let_def process_text_file_def
      process_extracted_extract_text split: sum.splits)

lemma ex_types:
  "get_file_type ''note.txt'' = ''txt''"
  "get_file_type ''broken.pdf'' = ''pdf''"
  by code_simp+

lemma ex_note_processed: "snd (process_document ex_doc_env ''note.txt'') =
   Inr \<lparr>success = True, error = None, documents = [ex_note_chunk], metadata = ex_note_metadata\<rparr>"
  by (simp add: process_document_def ex_doc_env_def Let_def get_file_type_def ex_suffixes
      type_mapping_def process_extracted_def process_text_file_def split_text_def
      ex_note_chunk_def ex_note_metadata_def)

lemma ex_broken_processed: "snd (process_document ex_doc_env ''broken.pdf'') =
   Inr (failure (Some ''cannot open'') [''file_type'' \<mapsto> PStr ''pdf''])"
  by (simp add: process_document_def ex_doc_env_def Let_def get_file_type_def ex_suffixes
      type_mapping_def process_extracted_def)

lemma ex_gather:
  "gather ex_doc_env ex_image_env st [''note.txt'', ''broken.pdf'']
     = (st, [Inr \<lparr>success = True, error = None, documents = [ex_note_chunk],
                   metadata = ex_note_metadata\<rparr>,
             Inr (failure (Some ''cannot open'') [''file_type'' \<mapsto> PStr ''pdf''])])"
proof -
  have n: "process_document (wave_env ex_doc_env ex_image_env st) ''note.txt''
             = ([(''txt'', ''note.txt'')],
                Inr \<lparr>success = True, error = None, documents = [ex_note_chunk],
                     metadata = ex_note_metadata\<rparr>)"
    using ex_note_processed
    by (simp add: process_document_wave_env ex_types prod_eq_iff)
       (simp add: process_document_def ex_doc_env_def ex_types Let_def)
  have b: "process_document (wave_env ex_doc_env ex_image_env st) ''broken.pdf''
             = ([(''pdf'', ''broken.pdf'')],
                Inr (failure (Some ''cannot open'') [''file_type'' \<mapsto> PStr ''pdf'']))"
    using ex_broken_processed
    by (simp add: process_document_wave_env ex_types prod_eq_iff)
       (simp add: process_document_def ex_doc_env_def ex_types Let_def)
  show ?thesis
    by (simp add: n b)
qed

lemma ex_batch:
  "process_multiple_documents ex_doc_env ex_image_env JNull ex_ocr_state
      [''note.txt'', ''broken.pdf'']
     = (ex_unloaded,
        \<lparr>successful = [\<lparr>s_file_path = ''note.txt'', s_documents = [ex_note_chunk],
                         s_metadata = ex_note_metadata\<rparr>],
         failed = [\<lparr>x_file_path = ''broken.pdf'', x_error = Some ''cannot open''\<rparr>],
         total_documents = 1, total_chunks = 1, memory_usage = JNull\<rparr>)"
  by (simp add: process_multiple_documents_def process_batches.simps [of _ _ _ 0]
      process_batches.simps [of _ _ _ 5] ex_gather ex_cleanup add_result_def failure_def Let_def
      del: gather.simps)

lemma ex_vector_add:
  "vector_add_documents ex_scan_env [ex_note_chunk] 0 ([], []) = ([ex_note_chunk], Inr [''id''])"
  by (simp add: vector_add_documents.simps [of _ _ 0] vector_add_documents.simps [of _ _ 100]
      ex_scan_env_def)

lemma ex_process_and_add:
  "process_and_add_files ex_scan_env w0 [''note.txt'', ''broken.pdf'']
     = (w0\<lparr>ocr_st := ex_unloaded, store := [ex_note_chunk]\<rparr>,
        Inr \<lparr>g_success = True, g_error = None, g_files_processed = 1, g_files_failed = 1,
             g_total_chunks = 1, g_documents_added = 1, g_total_documents = 1,
             g_processing_details =
               snd (process_multiple_documents ex_doc_env ex_image_env JNull ex_ocr_state
                      [''note.txt'', ''broken.pdf''])\<rparr>)"
  if "rag_initialized w0" "store w0 = []" "ocr_st w0 = ex_ocr_state" for w0
proof -
  have d: "doc ex_scan_env = ex_doc_env" "memory ex_scan_env = JNull" "\<not> stats_fail ex_scan_env"
    "images ex_scan_env = ex_image_env"
    by (simp_all add: ex_scan_env_def)
  show ?thesis
    using that
    by (simp add: process_and_add_files_def d Let_def add_documents_def ex_batch ex_vector_add)
qed

lemma str_nat_Suc_Suc_0: "str_nat (Suc (Suc 0)) = ''2''"
  using str_nat_2 by (simp only: numeral_2_eq_2)
lemma str_nat_Suc_0: "str_nat (Suc 0) = ''1''"
  using str_nat_1 by (simp only: One_nat_def)

lemma ex_fcard: "fcard {|''md5:broken.pdf_1700000000.5_2048'', ''md5:note.txt_1700000000.0_5''|} = 2"
  by (simp add: fcard_finsert_if)

text \<open>
  C2. One scan over \<open>note.txt\<close>, which is processed, and \<open>broken.pdf\<close>, whose extraction
  fails. The RAG service reports success because one file was processed and its chunk was
  added; the indexer then adds the fingerprints of both files, saves a database counting
  two, and unlinks both files, while the vector store holds the chunk of \<open>note.txt\<close> only
  and the log says that one file was indexed.
\<close>

theorem failed_file_fingerprint_is_committed:
  "is_invalid ex_doc_env ''broken.pdf''
   \<and> snd (get_file_hash ex_scan_env ex_world ''broken.pdf'') = ''md5:broken.pdf_1700000000.5_2048''
   \<and> scan_and_index ex_scan_env ex_world
     = ex_world
        \<lparr>processed_files := {|''md5:broken.pdf_1700000000.5_2048'', ''md5:note.txt_1700000000.0_5''|},
         ocr_st := ex_unloaded,
         store := [ex_note_chunk],
         disk := [''processed_files.json'' \<mapsto> ''{total_processed: 2}''],
         unlinked := [''note.txt'', ''broken.pdf''],
         trace := [Log INFO ''Found 2 new files to index'',
                   Log DEBUG ''Saved 2 processed files to database'',
                   Log INFO ''Successfully indexed 1 files'',
                   Log INFO ''Added 1 document chunks'',
                   Log DEBUG ''Deleted processed file: note.txt'',
                   Log DEBUG ''Deleted processed file: broken.pdf'']\<rparr>"
proof -
  have r: "rglob ex_scan_env = Inr [''note.txt'', ''broken.pdf'']" by (simp add: ex_scan_env_def)
  have i: "rag_initialized (log l m ex_world)" "store (log l m ex_world) = []"
    "ocr_st (log l m ex_world) = ex_ocr_state" for l m
    by (simp_all add: log_def ex_world_def)
  have e: "open_w ex_scan_env = (\<lambda>p. None)" "unlink_fails ex_scan_env = (\<lambda>p. None)"
    "processed_files_db ex_scan_env = ''processed_files.json''"
    "json_dump ex_scan_env = (\<lambda>s. Inr (''{total_processed: '' @ str_nat (n_total_processed s) @ ''}''))"
    "utcnow ex_scan_env = ''2024-01-01T00:00:00''"
    by (simp_all add: ex_scan_env_def)
  have b: "is_invalid ex_doc_env ''broken.pdf''"
    by (simp add: is_invalid_def ex_broken_processed failure_def)
  have h: "snd (get_file_hash ex_scan_env ex_world ''broken.pdf'')
             = ''md5:broken.pdf_1700000000.5_2048''"
    by (simp add: get_file_hash_def ex_scan_env_def ex_doc_env_def ex_names str_nat_2048)
  have "scan_and_index ex_scan_env ex_world
     = ex_world
        \<lparr>processed_files := {|''md5:broken.pdf_1700000000.5_2048'', ''md5:note.txt_1700000000.0_5''|},
         ocr_st := ex_unloaded,
         store := [ex_note_chunk],
         disk := [''processed_files.json'' \<mapsto> ''{total_processed: 2}''],
         unlinked := [''note.txt'', ''broken.pdf''],
         trace := [Log INFO ''Found 2 new files to index'',
                   Log DEBUG ''Saved 2 processed files to database'',
                   Log INFO ''Successfully indexed 1 files'',
                   Log INFO ''Added 1 document chunks'',
                   Log DEBUG ''Deleted processed file: note.txt'',
                   Log DEBUG ''Deleted processed file: broken.pdf'']\<rparr>"
    by (simp add: scan_and_index_def r ex_collect str_nat_2 str_nat_1 process_new_files_def ex_process_and_add [OF i] Let_def
          del: collect_new_files.simps)
       (simp add: mark_processed_def save_processed_files_def snapshot_of_def e log_def
          ex_world_def ex_fcard str_nat_2 str_nat_Suc_Suc_0 str_nat_Suc_0 save_ops_def run_ops_def)
  then show ?thesis using b h by simp
qed

theorem failed_file_fingerprint_is_committed_witness:
  "is_invalid ex_doc_env ''broken.pdf''
   \<and> ''md5:broken.pdf_1700000000.5_2048'' |\<in>| processed_files (scan_and_index ex_scan_env ex_world)
   \<and> store (scan_and_index ex_scan_env ex_world) = [ex_note_chunk]
   \<and> ''broken.pdf'' \<in> set (unlinked (scan_and_index ex_scan_env ex_world))"
  using failed_file_fingerprint_is_committed by simp

subsection \<open>The loop\<close>

text \<open>
  A scan leaves the \<open>running\<close> flag as it is and adds only log records to the trace, whatever
  the environment does; a scan that cannot list the directory logs the error.
\<close>

lemma only_logs_refl: "only_logs w w"
  by (simp add: only_logs_def)

lemma only_logs_trans: "only_logs a b \<Longrightarrow> only_logs b c \<Longrightarrow> only_logs a c"
  by (auto simp: only_logs_def)

lemma only_logs_log: "only_logs w w' \<Longrightarrow> only_logs w (log l m w')"
  by (auto simp: only_logs_def log_def)

lemma only_logs_get_file_hash: "only_logs w (fst (get_file_hash senv w p))"
  by (auto simp: get_file_hash_def only_logs_log only_logs_refl split: sum.splits prod.splits)

lemma only_logs_collect:
  "only_logs w0 w \<Longrightarrow> only_logs w0 (fst (collect_new_files senv paths (w, acc)))"
proof (induction paths arbitrary: w acc)
  case Nil
  then show ?case by simp
next
  case (Cons p paths)
  have g: "only_logs w0 (fst (get_file_hash senv w p))"
    using only_logs_trans [OF Cons.prems only_logs_get_file_hash] .
  show ?case
    using Cons.IH [OF Cons.prems] Cons.IH [OF g] 
    by (auto split: prod.splits)
qed

lemma only_logs_save: "only_logs w (save_processed_files senv w)"
  by (auto simp: save_processed_files_def only_logs_def log_def split: option.splits sum.splits)

lemma only_logs_cleanup:
  "only_logs w0 w \<Longrightarrow> only_logs w0 (cleanup_processed_files senv w paths)"
proof (induction paths arbitrary: w)
  case Nil
  then show ?case by simp
next
  case (Cons p paths)
  have "only_logs w0 (case unlink_fails senv p of
          Some e \<Rightarrow> log WARNING (''Failed to delete file '' @ p @ '': '' @ str_exc e) w
        | None \<Rightarrow> log DEBUG (''Deleted processed file: '' @ p) (w\<lparr>unlinked := unlinked w @ [p]\<rparr>))"
    using Cons.prems by (auto simp: only_logs_def log_def split: option.splits)
  then show ?case using Cons.IH by simp
qed

lemma add_documents_fields:
  "add_documents senv w docs = (w', r) \<Longrightarrow> running w' = running w \<and> trace w' = trace w"
  by (auto simp: add_documents_def split: prod.splits sum.splits)

lemma rag_initialize_fields:
  "rag_initialize senv w = (w', r) \<Longrightarrow> running w' = running w \<and> trace w' = trace w"
  by (auto simp: rag_initialize_def Let_def split: option.splits)

lemma process_and_add_files_fields:
  "running (fst (process_and_add_files senv w ps)) = running w
   \<and> trace (fst (process_and_add_files senv w ps)) = trace w"
  by (auto simp: process_and_add_files_def Let_def split: option.splits prod.splits if_splits
      dest!: add_documents_fields rag_initialize_fields)

lemma only_logs_process_new_files:
  "only_logs w (process_new_files senv w new_files)"
proof -
  obtain w1 r where p: "process_and_add_files senv w (map fst new_files) = (w1, r)"
    by (cases "process_and_add_files senv w (map fst new_files)")
  have w1: "only_logs w w1"
    using process_and_add_files_fields [of senv w "map fst new_files"] p
    by (simp add: only_logs_def)
  have m: "only_logs w (mark_processed hs w1)" for hs
    using w1 by (simp add: only_logs_def mark_processed_def)
  have s: "only_logs w (save_processed_files senv (mark_processed hs w1))" for hs
    using only_logs_trans [OF m only_logs_save] .
  show ?thesis
    using p w1 s
    by (auto simp: process_new_files_def Let_def only_logs_log only_logs_cleanup
        split: sum.splits)
qed

lemma only_logs_scan: "only_logs w (scan_and_index senv w)"
proof (cases "rglob senv")
  case (Inl e)
  then show ?thesis by (simp add: scan_and_index_def only_logs_log only_logs_refl)
next
  case (Inr paths)
  obtain w1 nf where c: "collect_new_files senv paths (w, []) = (w1, nf)"
    by (cases "collect_new_files senv paths (w, [])")
  have w1: "only_logs w w1"
    using only_logs_collect [OF only_logs_refl, of w senv paths "[]"] c by simp
  show ?thesis
    using Inr c w1 only_logs_trans [OF only_logs_log [OF w1] only_logs_process_new_files]
    by (simp add: scan_and_index_def only_logs_log)
qed

lemma scan_error_logged:
  "rglob senv = Inl e \<Longrightarrow>
     Log ERROR (''Error scanning directory: '' @ str_exc e) \<in> set (trace (scan_and_index senv w))"
  by (simp add: scan_and_index_def log_def)

lemma schedule_append [simp]: "schedule (xs @ ys) = schedule xs @ schedule ys"
  by (simp add: schedule_def)

lemma schedule_Cons [simp]:
  "schedule (e # es) = (if is_log e then schedule es else e # schedule es)"
  by (simp add: schedule_def)

lemma schedule_Nil [simp]: "schedule [] = []"
  by (simp add: schedule_def)

lemma schedule_logs: "list_all is_log logs \<Longrightarrow> schedule logs = []"
  by (induction logs) auto

lemma scan_step:
  "running (scan_and_index senv (w\<lparr>trace := trace w @ [Scan]\<rparr>)) = running w
   \<and> schedule (trace (scan_and_index senv (w\<lparr>trace := trace w @ [Scan]\<rparr>)))
       = schedule (trace w) @ [Scan]
   \<and> set (trace w) \<subseteq> set (trace (scan_and_index senv (w\<lparr>trace := trace w @ [Scan]\<rparr>)))"
  using only_logs_scan [of "w\<lparr>trace := trace w @ [Scan]\<rparr>" senv]
  by (auto simp: only_logs_def schedule_logs)



text \<open>
  A stop that reaches a scan leaves the \<open>running\<close> flag to \<open>stop()\<close> and has added only log
  records to the trace; without a stop nothing is left of the scan but its full run.
\<close>

lemma batch_stopped_fields:
  "batch_stopped senv w ps sp = Some wc \<Longrightarrow> running wc = running w \<and> trace wc = trace w"
  by (auto simp: batch_stopped_def split: scan_stop.splits if_splits prod.splits option.splits
      dest!: rag_initialize_fields)

lemma only_logs_scan_stopped:
  assumes "scan_stopped senv w sp = Some wc"
  shows "only_logs w wc"
proof (cases "rglob senv")
  case (Inl e)
  then show ?thesis using assms by (simp add: scan_stopped_def)
next
  case (Inr paths)
  obtain w1 nf where c: "collect_new_files senv paths (w, []) = (w1, nf)"
    by (cases "collect_new_files senv paths (w, [])")
  have w1: "only_logs w w1"
    using only_logs_collect [OF only_logs_refl, of w senv paths "[]"] c by simp
  let ?w2 = "log INFO (''Found '' @ str_nat (length nf) @ '' new files to index'') w1"
  have b: "batch_stopped senv ?w2 (map fst nf) sp = Some wc"
    using assms Inr c by (simp add: scan_stopped_def split: if_splits)
  have "only_logs ?w2 wc"
    using batch_stopped_fields [OF b] by (simp add: only_logs_def)
  then show ?thesis
    using only_logs_trans [OF only_logs_log [OF w1]] by blast
qed

lemma scan_stopped_No_stop: "scan_stopped senv w No_stop = None"
  by (auto simp: scan_stopped_def batch_stopped_def split: sum.splits prod.splits)

lemma scan_stopped_step:
  assumes "scan_stopped senv (w\<lparr>trace := trace w @ [Scan]\<rparr>) sp = Some wc"
  shows "running wc = running w \<and> schedule (trace wc) = schedule (trace w) @ [Scan]
         \<and> set (trace w) \<subseteq> set (trace wc)"
  using only_logs_scan_stopped [OF assms]
  by (auto simp: only_logs_def schedule_logs)

subsection \<open>Passages of the loop\<close>

lemma loop_step_quiet:
  assumes "running w" and "it_scan_stop it = No_stop" and "it_sleep it = Elapsed"
  shows "\<exists>w2. indexing_loop n (it # its) w = indexing_loop n its w2
              \<and> running w2
              \<and> schedule (trace w2) = schedule (trace w) @ [Scan, Sleep n]
              \<and> set (trace (scan_and_index (it_env it) (w\<lparr>trace := trace w @ [Scan]\<rparr>)))
                   \<subseteq> set (trace w2)
              \<and> set (trace w) \<subseteq> set (trace w2)"
proof -
  let ?w1 = "scan_and_index (it_env it) (w\<lparr>trace := trace w @ [Scan]\<rparr>)"
  let ?w2 = "?w1\<lparr>trace := trace ?w1 @ [Sleep n]\<rparr>"
  have "indexing_loop n (it # its) w = indexing_loop n its ?w2"
    using assms by (simp add: Let_def scan_stopped_No_stop)
  moreover have "running ?w2" "schedule (trace ?w2) = schedule (trace w) @ [Scan, Sleep n]"
    "set (trace ?w1) \<subseteq> set (trace ?w2)" "set (trace w) \<subseteq> set (trace ?w2)"
    using assms scan_step [of "it_env it" w] by auto
  ultimately show ?thesis by blast
qed

lemma loop_trace_mono:
  "set (trace w) \<subseteq> set (trace (fst (indexing_loop n its w)))"
proof (induction its arbitrary: w)
  case Nil
  then show ?case by simp
next
  case (Cons it its)
  let ?w0 = "w\<lparr>trace := trace w @ [Scan]\<rparr>"
  let ?w1 = "scan_and_index (it_env it) ?w0"
  have s: "set (trace w) \<subseteq> set (trace ?w1)"
    using scan_step [of "it_env it" w] by simp
  show ?case
  proof (cases "running w")
    case False
    then show ?thesis by simp
  next
    case True
    show ?thesis
    proof (cases "scan_stopped (it_env it) ?w0 (it_scan_stop it)")
      case (Some wc)
      then show ?thesis
        using True scan_stopped_step [OF Some] by (auto simp: log_def)
    next
      case None
      show ?thesis
      proof (cases "it_sleep it")
        case Elapsed
        then show ?thesis
          using True None s Cons.IH [of "?w1\<lparr>trace := trace ?w1 @ [Sleep n]\<rparr>"]
          by (auto simp: Let_def)
      next
        case Stopped
        then show ?thesis
          using True None s by (auto simp: Let_def log_def)
      next
        case (Sleep_raised e)
        let ?w4 = "?w1\<lparr>trace := trace ?w1 @ [Sleep n]
                     @ [Log ERROR (''Error in indexing loop: '' @ str_exc e)] @ [Sleep n]\<rparr>"
        show ?thesis
          using True None s Sleep_raised Cons.IH [of ?w4]
          by (cases "it_handler_sleep it") (auto simp: Let_def log_def)
      qed
    qed
  qed
qed

lemma loop_quiet:
  assumes "running w" and "\<forall>it \<in> set its. it_scan_stop it = No_stop \<and> it_sleep it = Elapsed"
  shows "snd (indexing_loop n its w) = Looping
       \<and> running (fst (indexing_loop n its w))
       \<and> schedule (trace (fst (indexing_loop n its w)))
           = schedule (trace w) @ concat (replicate (length its) [Scan, Sleep n])"
  using assms
proof (induction its arbitrary: w)
  case Nil
  then show ?case by simp
next
  case (Cons it its)
  have e: "it_scan_stop it = No_stop" "it_sleep it = Elapsed" using Cons.prems(2) by simp_all
  obtain w2 where w2: "indexing_loop n (it # its) w = indexing_loop n its w2"
      "running w2" "schedule (trace w2) = schedule (trace w) @ [Scan, Sleep n]"
    using loop_step_quiet [OF Cons.prems(1) e, of n its] by blast
  have "\<forall>it \<in> set its. it_scan_stop it = No_stop \<and> it_sleep it = Elapsed"
    using Cons.prems(2) by simp
  then show ?case
    using Cons.IH [OF w2(2)] w2 by simp
qed

lemma loop_errors_logged:
  assumes "running w" and "\<forall>it \<in> set its. it_scan_stop it = No_stop \<and> it_sleep it = Elapsed"
    and "it \<in> set its" and "rglob (it_env it) = Inl e"
  shows "Log ERROR (''Error scanning directory: '' @ str_exc e)
           \<in> set (trace (fst (indexing_loop n its w)))"
  using assms
proof (induction its arbitrary: w)
  case Nil
  then show ?case by simp
next
  case (Cons a its)
  have e: "it_scan_stop a = No_stop" "it_sleep a = Elapsed" using Cons.prems(2) by simp_all
  obtain w2 where w2: "indexing_loop n (a # its) w = indexing_loop n its w2"
      "running w2"
      "set (trace (scan_and_index (it_env a) (w\<lparr>trace := trace w @ [Scan]\<rparr>))) \<subseteq> set (trace w2)"
    using loop_step_quiet [OF Cons.prems(1) e, of n its] by blast
  have rest: "\<forall>it \<in> set its. it_scan_stop it = No_stop \<and> it_sleep it = Elapsed"
    using Cons.prems(2) by simp
  show ?case
  proof (cases "it = a")
    case True
    have "Log ERROR (''Error scanning directory: '' @ str_exc e) \<in> set (trace w2)"
      using scan_error_logged [of "it_env a" e "w\<lparr>trace := trace w @ [Scan]\<rparr>"]
        Cons.prems(4) True w2(3) by auto
    then show ?thesis
      using loop_trace_mono [of w2 n its] w2(1) by auto
  next
    case False
    then have "it \<in> set its" using Cons.prems(3) by simp
    then show ?thesis
      using Cons.IH [OF w2(2) rest _ Cons.prems(4)] w2(1) by simp
  qed
qed

lemma loop_append:
  assumes "running w" and "\<forall>it \<in> set its. it_scan_stop it = No_stop \<and> it_sleep it = Elapsed"
  shows "indexing_loop n (its @ rest) w = indexing_loop n rest (fst (indexing_loop n its w))"
  using assms
proof (induction its arbitrary: w)
  case Nil
  then show ?case by simp
next
  case (Cons it its)
  have e: "it_scan_stop it = No_stop" "it_sleep it = Elapsed" using Cons.prems(2) by simp_all
  let ?w1 = "scan_and_index (it_env it) (w\<lparr>trace := trace w @ [Scan]\<rparr>)"
  let ?w2 = "?w1\<lparr>trace := trace ?w1 @ [Sleep n]\<rparr>"
  have s: "indexing_loop n (it # xs) w = indexing_loop n xs ?w2" for xs
    using Cons.prems(1) e by (simp add: Let_def scan_stopped_No_stop)
  have r: "running ?w2" using Cons.prems(1) scan_step [of "it_env it" w] by simp
  have q: "\<forall>it \<in> set its. it_scan_stop it = No_stop \<and> it_sleep it = Elapsed"
    using Cons.prems(2) by simp
  show ?case
    using Cons.IH [OF r q] s [of "its @ rest"] s [of its] by simp
qed

lemma loop_stop_in_sleep:
  assumes "running w" and "it_scan_stop it = No_stop" and "it_sleep it = Stopped"
  shows "snd (indexing_loop n (it # post) w) = Exited
       \<and> \<not> running (fst (indexing_loop n (it # post) w))
       \<and> schedule (trace (fst (indexing_loop n (it # post) w)))
           = schedule (trace w) @ [Scan, Sleep n]"
  using assms scan_step [of "it_env it" w]
  by (simp add: Let_def log_def scan_stopped_No_stop)

lemma loop_stop_in_scan:
  assumes "running w"
    and "scan_stopped (it_env it) (w\<lparr>trace := trace w @ [Scan]\<rparr>) (it_scan_stop it) = Some wc"
  shows "snd (indexing_loop n (it # post) w) = Exited
       \<and> \<not> running (fst (indexing_loop n (it # post) w))
       \<and> schedule (trace (fst (indexing_loop n (it # post) w)))
           = schedule (trace w) @ [Scan]"
  using assms scan_stopped_step [OF assms(2)]
  by (simp add: log_def)

text \<open>
  C3, as the code has it. The body of the loop scans first and sleeps afterwards. From a
  running indexer, over any number of passages without a stop, the loop is still going,
  and the scans and sleeps of the trace are, passage by passage, one scan followed by one
  sleep of \<open>scan_interval\<close>; a scan that failed to list the directory has logged its error
  and is followed by the later passages like any other. An explicit \<open>stop()\<close> ends the
  loop, with \<open>running\<close> false and no further scan: called during the sleep of the next
  passage, after that passage's scan and sleep; called while the scan of the next passage
  is suspended, in the middle of that scan and without its sleep.
\<close>

theorem loop_scans_then_sleeps:
  assumes "running w"
    and "\<forall>it \<in> set its. it_scan_stop it = No_stop \<and> it_sleep it = Elapsed"
  shows "snd (indexing_loop n its w) = Looping
       \<and> schedule (trace (fst (indexing_loop n its w)))
           = schedule (trace w) @ concat (replicate (length its) [Scan, Sleep n])
       \<and> (\<forall>it e. it \<in> set its \<and> rglob (it_env it) = Inl e \<longrightarrow>
             Log ERROR (''Error scanning directory: '' @ str_exc e)
               \<in> set (trace (fst (indexing_loop n its w))))
       \<and> (\<forall>stop post. it_scan_stop stop = No_stop \<and> it_sleep stop = Stopped \<longrightarrow>
             snd (indexing_loop n (its @ stop # post) w) = Exited
             \<and> \<not> running (fst (indexing_loop n (its @ stop # post) w))
             \<and> schedule (trace (fst (indexing_loop n (its @ stop # post) w)))
                 = schedule (trace w) @ concat (replicate (length its) [Scan, Sleep n])
                   @ [Scan, Sleep n])
       \<and> (\<forall>stop post wc.
             scan_stopped (it_env stop)
               ((fst (indexing_loop n its w))
                  \<lparr>trace := trace (fst (indexing_loop n its w)) @ [Scan]\<rparr>)
               (it_scan_stop stop) = Some wc \<longrightarrow>
             snd (indexing_loop n (its @ stop # post) w) = Exited
             \<and> \<not> running (fst (indexing_loop n (its @ stop # post) w))
             \<and> schedule (trace (fst (indexing_loop n (its @ stop # post) w)))
                 = schedule (trace w) @ concat (replicate (length its) [Scan, Sleep n])
                   @ [Scan])"
proof -
  let ?wk = "fst (indexing_loop n its w)"
  note q = loop_quiet [OF assms, of n]
  have rk: "running ?wk" using q by simp
  have ap: "indexing_loop n (its @ rest) w = indexing_loop n rest ?wk" for rest
    using loop_append [OF assms] .
  have a: "snd (indexing_loop n (its @ stop # post) w) = Exited
           \<and> \<not> running (fst (indexing_loop n (its @ stop # post) w))
           \<and> schedule (trace (fst (indexing_loop n (its @ stop # post) w)))
               = schedule (trace w) @ concat (replicate (length its) [Scan, Sleep n])
                 @ [Scan, Sleep n]"
    if "it_scan_stop stop = No_stop" and "it_sleep stop = Stopped" for stop post
    using loop_stop_in_sleep [OF rk that, of n post] q by (simp add: ap)
  have b: "snd (indexing_loop n (its @ stop # post) w) = Exited
           \<and> \<not> running (fst (indexing_loop n (its @ stop # post) w))
           \<and> schedule (trace (fst (indexing_loop n (its @ stop # post) w)))
               = schedule (trace w) @ concat (replicate (length its) [Scan, Sleep n])
                 @ [Scan]"
    if "scan_stopped (it_env stop) (?wk\<lparr>trace := trace ?wk @ [Scan]\<rparr>) (it_scan_stop stop)
          = Some wc" for stop post wc
    using loop_stop_in_scan [OF rk that, of n post] q by (simp add: ap)
  show ?thesis
    using q loop_errors_logged [OF assms, of _ _ n] a b by blast
qed

text \<open>
  The scan of \<open>ex_scan_env\<close> from \<open>ex_world\<close>, stopped while its first batch is gathered.
\<close>

lemma ex_collect_in_loop:
  "collect_new_files ex_scan_env [''note.txt'', ''broken.pdf'']
      (ex_world\<lparr>trace := trace ex_world @ [Scan]\<rparr>, [])
     = (ex_world\<lparr>trace := trace ex_world @ [Scan]\<rparr>,
        [(''note.txt'', ''md5:note.txt_1700000000.0_5''),
         (''broken.pdf'', ''md5:broken.pdf_1700000000.5_2048'')])"
  by (simp add: ex_suffixes ex_names str_nat_5 str_nat_2048 get_file_hash_def ex_scan_env_def
      ex_doc_env_def ex_world_def)

lemma ex_gather_note:
  "fst (gather ex_doc_env ex_image_env st [''note.txt'']) = st"
proof -
  have "fst (process_document (wave_env ex_doc_env ex_image_env st) ''note.txt'')
          = [(''txt'', ''note.txt'')]"
    by (simp add: process_document_wave_env ex_types)
       (simp add: process_document_def ex_doc_env_def ex_types Let_def)
  then show ?thesis
    by (auto simp: Let_def split: prod.splits)
qed

lemma ex_scan_stopped:
  "scan_stopped ex_scan_env (ex_world\<lparr>trace := trace ex_world @ [Scan]\<rparr>) (Stop_in_batch 0 1)
     = Some (ex_world\<lparr>trace := [Scan, Log INFO ''Found 2 new files to index'']\<rparr>)"
proof -
  have r: "rglob ex_scan_env = Inr [''note.txt'', ''broken.pdf'']"
    by (simp add: ex_scan_env_def)
  have d: "doc ex_scan_env = ex_doc_env" "images ex_scan_env = ex_image_env"
    by (simp_all add: ex_scan_env_def)
  show ?thesis
    by (simp add: scan_stopped_def r ex_collect_in_loop str_nat_2 batch_stopped_def d
          ex_gather_note del: collect_new_files.simps gather.simps)
       (simp add: log_def ex_world_def str_nat_Suc_Suc_0)
qed

theorem loop_scans_then_sleeps_witness:
  "running ex_world
   \<and> it_scan_stop ex_iter_error = No_stop \<and> it_sleep ex_iter_error = Elapsed
   \<and> it_scan_stop ex_iter_idle = No_stop \<and> it_sleep ex_iter_idle = Elapsed
   \<and> snd (indexing_loop 3600 [ex_iter_error, ex_iter_idle] ex_world) = Looping
   \<and> schedule (trace (fst (indexing_loop 3600 [ex_iter_error, ex_iter_idle] ex_world)))
       = [Scan, Sleep 3600, Scan, Sleep 3600]
   \<and> rglob (it_env ex_iter_error) = Inl (Exception ''Permission denied'')
   \<and> Log ERROR ''Error scanning directory: Permission denied''
       \<in> set (trace (fst (indexing_loop 3600 [ex_iter_error, ex_iter_idle] ex_world)))
   \<and> it_scan_stop ex_iter_stop = No_stop \<and> it_sleep ex_iter_stop = Stopped
   \<and> snd (indexing_loop 3600 ([ex_iter_error, ex_iter_idle] @ ex_iter_stop # [ex_iter_idle])
            ex_world) = Exited
   \<and> schedule (trace (fst (indexing_loop 3600
                  ([ex_iter_error, ex_iter_idle] @ ex_iter_stop # [ex_iter_idle]) ex_world)))
       = [Scan, Sleep 3600, Scan, Sleep 3600, Scan, Sleep 3600]
   \<and> scan_stopped (it_env ex_iter_stop_in_scan)
         (ex_world\<lparr>trace := trace ex_world @ [Scan]\<rparr>) (it_scan_stop ex_iter_stop_in_scan)
       = Some (ex_world\<lparr>trace := [Scan, Log INFO ''Found 2 new files to index'']\<rparr>)
   \<and> snd (indexing_loop 3600 ([] @ ex_iter_stop_in_scan # [ex_iter_idle]) ex_world) = Exited
   \<and> schedule (trace (fst (indexing_loop 3600 ([] @ ex_iter_stop_in_scan # [ex_iter_idle])
                              ex_world))) = [Scan]"
proof -
  have r: "running ex_world" by (simp add: ex_world_def)
  have t: "schedule (trace ex_world) = []" by (simp add: ex_world_def)
  have a1: "it_scan_stop ex_iter_error = No_stop" "it_sleep ex_iter_error = Elapsed"
    and a2: "it_scan_stop ex_iter_idle = No_stop" "it_sleep ex_iter_idle = Elapsed"
    by (simp_all add: ex_iter_error_def ex_iter_idle_def)
  have a: "\<forall>it \<in> set [ex_iter_error, ex_iter_idle].
             it_scan_stop it = No_stop \<and> it_sleep it = Elapsed"
    using a1 a2 by simp
  have a0: "\<forall>it \<in> set ([] :: iteration list). it_scan_stop it = No_stop \<and> it_sleep it = Elapsed"
    by simp
  have g: "rglob (it_env ex_iter_error) = Inl (Exception ''Permission denied'')"
    by (simp add: ex_iter_error_def)
  have s: "it_scan_stop ex_iter_stop = No_stop" "it_sleep ex_iter_stop = Stopped"
    by (simp_all add: ex_iter_stop_def)
  have c2: "concat (replicate (length [ex_iter_error, ex_iter_idle]) [Scan, Sleep 3600])
              = [Scan, Sleep 3600, Scan, Sleep 3600]"
    by (simp add: numeral_2_eq_2)
  note th = loop_scans_then_sleeps [OF r a, of 3600]
  note th0 = loop_scans_then_sleeps [OF r a0, of 3600]
  have l: "snd (indexing_loop 3600 [ex_iter_error, ex_iter_idle] ex_world) = Looping"
    using th by (rule conjunct1)
  have sc: "schedule (trace (fst (indexing_loop 3600 [ex_iter_error, ex_iter_idle] ex_world)))
              = [Scan, Sleep 3600, Scan, Sleep 3600]"
    using th by (simp only: t c2 append_Nil)
  have er: "Log ERROR (''Error scanning directory: '' @ str_exc (Exception ''Permission denied''))
              \<in> set (trace (fst (indexing_loop 3600 [ex_iter_error, ex_iter_idle] ex_world)))"
    using th g by (meson list.set_intros(1))
  have st: "snd (indexing_loop 3600 ([ex_iter_error, ex_iter_idle] @ ex_iter_stop # [ex_iter_idle])
                   ex_world) = Exited
            \<and> schedule (trace (fst (indexing_loop 3600
                  ([ex_iter_error, ex_iter_idle] @ ex_iter_stop # [ex_iter_idle]) ex_world)))
                = schedule (trace ex_world)
                  @ concat (replicate (length [ex_iter_error, ex_iter_idle]) [Scan, Sleep 3600])
                  @ [Scan, Sleep 3600]"
    using th s by blast
  have k: "scan_stopped (it_env ex_iter_stop_in_scan)
             (ex_world\<lparr>trace := trace ex_world @ [Scan]\<rparr>) (it_scan_stop ex_iter_stop_in_scan)
           = Some (ex_world\<lparr>trace := [Scan, Log INFO ''Found 2 new files to index'']\<rparr>)"
    using ex_scan_stopped by (simp add: ex_iter_stop_in_scan_def)
  have w0: "fst (indexing_loop 3600 [] ex_world) = ex_world" by simp
  have ss: "snd (indexing_loop 3600 ([] @ ex_iter_stop_in_scan # [ex_iter_idle]) ex_world) = Exited
            \<and> schedule (trace (fst (indexing_loop 3600
                  ([] @ ex_iter_stop_in_scan # [ex_iter_idle]) ex_world)))
                = schedule (trace ex_world) @ concat (replicate (length ([] :: iteration list))
                                                        [Scan, Sleep 3600]) @ [Scan]"
    using th0 k unfolding w0 by blast
  have ss': "snd (indexing_loop 3600 ([] @ ex_iter_stop_in_scan # [ex_iter_idle]) ex_world) = Exited"
    "schedule (trace (fst (indexing_loop 3600
                  ([] @ ex_iter_stop_in_scan # [ex_iter_idle]) ex_world))) = [Scan]"
    using ss t by simp_all
  have st': "snd (indexing_loop 3600 ([ex_iter_error, ex_iter_idle] @ ex_iter_stop # [ex_iter_idle])
                   ex_world) = Exited"
    "schedule (trace (fst (indexing_loop 3600
                  ([ex_iter_error, ex_iter_idle] @ ex_iter_stop # [ex_iter_idle]) ex_world)))
       = [Scan, Sleep 3600, Scan, Sleep 3600, Scan, Sleep 3600]"
    using st by (simp_all only: t c2 append_Nil append_Cons)
  have er': "Log ERROR ''Error scanning directory: Permission denied''
              \<in> set (trace (fst (indexing_loop 3600 [ex_iter_error, ex_iter_idle] ex_world)))"
    using er by simp
  show ?thesis
    using r a1 a2 l sc g er' s st' k ss' by blast
qed

text \<open>
  C3 as the specification words it fails: the order sleep first, scan second is not the
  order of the code, and the first event of a started loop is a scan.
\<close>

theorem loop_first_event_is_scan:
  "running ex_world
   \<and> schedule (trace (fst (indexing_loop 3600 [ex_iter_idle] ex_world))) = [Scan, Sleep 3600]
   \<and> schedule (trace (fst (indexing_loop 3600 [ex_iter_idle] ex_world))) \<noteq> [Sleep 3600, Scan]"
  by (simp add: ex_world_def ex_iter_idle_def ex_idle_env_def ex_scan_env_def scan_and_index_def
      scan_stopped_def log_def Let_def)

end
